theory Spec2Isabelle
  imports Main
begin

section \<open>The bot identity service of tbot (lib/tbot/internal/identity/service.go)\<close>

text \<open>
  The service obtains, stores and renews the bot's identity. Its collaborators (the
  destination store, the client builder, the join and renewal RPCs, the key generator,
  the clock, the onboarding token) live outside service.go. They are taken as
  parameters, collected in the record \<open>env\<close>. A call whose answer may change from one
  call to the next receives the history of the calls made so far, so that nothing is
  assumed about two calls giving the same answer. Every call is appended to that
  history, which makes the order of the effects of a run observable.
\<close>

subsection \<open>Errors (github.com/gravitational/trace)\<close>

datatype errkind = NotFoundError | BadParameterError | OtherError

text \<open>An error has a kind, its message, and the messages added by \<open>trace.Wrap\<close>.\<close>

datatype error = Error errkind string "string list"

definition BadParameter :: "string \<Rightarrow> error" where
  "BadParameter msg = Error BadParameterError msg []"

fun Wrap :: "error \<Rightarrow> string \<Rightarrow> error" where
  "Wrap (Error k m ws) msg = Error k m (ws @ [msg])"

fun IsNotFound :: "error \<Rightarrow> bool" where
  "IsNotFound (Error k m ws) = (k = NotFoundError)"

fun IsBadParameter :: "error \<Rightarrow> bool" where
  "IsBadParameter (Error k m ws) = (k = BadParameterError)"

text \<open>A Go function either returns or panics.\<close>

datatype 'a outcome = Panic | Return 'a

subsection \<open>Data\<close>

type_synonym time = int
type_synonym bytes = string
type_synonym client = nat
type_synonym privkey = nat
type_synonym sshpub = nat
type_synonym certs = nat
type_synonym chan = nat
type_synonym netaddr = string
type_synonym bkstate = nat
type_synonym bkparams = nat

text \<open>
  The fields of \<open>identity.Identity\<close> that service.go reads or passes on:
  \<open>X509Cert.NotBefore\<close>, \<open>X509Cert.NotAfter\<close>, \<open>X509Cert.Subject.CommonName\<close>,
  \<open>TLSIdentity.Renewable\<close>, the key bytes and the token hash. \<open>IssuedCerts\<close> stands
  for the certificate material the identity was read from.
\<close>

record identity =
  PrivateKeyBytes :: bytes
  PublicKeyBytes :: bytes
  TokenHashBytes :: bytes
  X509Cert_NotBefore :: time
  X509Cert_NotAfter :: time
  X509Cert_Subject_CommonName :: string
  TLSIdentity_Renewable :: bool
  IssuedCerts :: certs

record LoadIdentityParams =
  lp_PrivateKeyBytes :: bytes
  lp_PublicKeyBytes :: bytes
  lp_TokenHashBytes :: bytes

text \<open>What parsing the certificates of an issuance result yields.\<close>

record cert_info =
  ci_NotBefore :: time
  ci_NotAfter :: time
  ci_CommonName :: string
  ci_Renewable :: bool

record Facade =
  fc_FIPS :: bool
  fc_Insecure :: bool
  fc_identity :: identity

datatype JoinMethod =
    JoinMethodToken
  | JoinMethodAzure
  | JoinMethodTerraformCloud
  | JoinMethodEnv0
  | JoinMethodGitLab
  | JoinMethodBoundKeypair
  | JoinMethodOther string

datatype AddressKind = AddressKindAuth | AddressKindProxy | AddressKindOther string

datatype cipher_suites = DefaultCipherSuites | FIPSCipherSuites

datatype role = RoleBot

datatype host_credentials = HostCredentials

record ConnectionConfig =
  Address :: string
  AddressKind :: AddressKind
  Insecure :: bool

record OnboardingConfig =
  HasToken :: bool
  JoinMethod :: JoinMethod
  CAPins :: "string list"
  CAPath :: string
  Azure_ClientID :: string
  Terraform_AudienceTag :: string
  Gitlab_TokenEnvVarName :: string
  BoundKeypair_RegistrationSecret :: string

record Config =
  Connection :: ConnectionConfig
  Onboarding :: OnboardingConfig
  Destination :: string
  TTL :: int
  RenewalInterval :: int
  FIPS :: bool

record RegisterParams =
  rp_Token :: string
  rp_ID_Role :: role
  rp_JoinMethod :: JoinMethod
  rp_Expires :: time
  rp_Insecure :: bool
  rp_CAPins :: "string list"
  rp_CAPath :: string
  rp_FIPS :: bool
  rp_GetHostCredentials :: host_credentials
  rp_CipherSuites :: cipher_suites
  rp_AuthClient :: "client option"
  rp_AuthServers :: "netaddr list"
  rp_ProxyServer :: "netaddr option"
  rp_AzureParams_ClientID :: string
  rp_TerraformCloudAudienceTag :: string
  rp_Env0AudienceTag :: string
  rp_GitlabParams_EnvVarName :: string
  rp_BoundKeypairParams :: "bkparams option"

record RegisterResult =
  rr_PrivateKey :: privkey
  rr_Certs :: certs

record UserCertsRequest =
  uc_SSHPublicKey :: bytes
  uc_TLSPublicKey :: bytes
  uc_Username :: string
  uc_Expires :: time

datatype suite_source = GetCurrentSuiteFromAuthPreference client

datatype key_purpose = HostIdentity

datatype status = Healthy | Unhealthy

subsection \<open>The history of effects\<close>

datatype event =
    EvLoadIdentity string
  | EvToken
  | EvNow time
  | EvBuild Facade
  | EvClientClose client
  | EvGenerateKey suite_source key_purpose
  | EvGenerateUserCerts client UserCertsRequest
  | EvLoadClientState string
  | EvStoreClientState bkstate
  | EvRegister RegisterParams
  | EvVerifyWrite string "error option"
  | EvSaveIdentity identity string "error option"
  | EvFacadeSet identity
  | EvMakeChan chan
  | EvCloseChan chan
  | EvReport status

text \<open>
  The world outside the service: the history of effects, and the channels made so far
  (a channel is its index in \<open>chans\<close>; the flag says whether it is closed).
\<close>

record world =
  trace :: "event list"
  chans :: "bool list"

definition emit :: "event \<Rightarrow> world \<Rightarrow> world" where
  "emit e w = w\<lparr>trace := trace w @ [e]\<rparr>"

subsection \<open>The collaborators\<close>

record env =
  Now :: "event list \<Rightarrow> time"
  Token :: "event list \<Rightarrow> error + string"
  Sum256Hex :: "string \<Rightarrow> bytes"
  LoadIdentity :: "event list \<Rightarrow> string \<Rightarrow> error + identity"
  SaveIdentity :: "event list \<Rightarrow> identity \<Rightarrow> string \<Rightarrow> error option"
  VerifyWrite :: "event list \<Rightarrow> string \<Rightarrow> error option"
  Build :: "event list \<Rightarrow> Facade \<Rightarrow> error + client"
  Expiry :: "Facade \<Rightarrow> time option"
  GenerateKey :: "event list \<Rightarrow> suite_source \<Rightarrow> key_purpose \<Rightarrow> error + privkey"
  MarshalPrivateKey :: "privkey \<Rightarrow> error + bytes"
  NewPublicKey :: "privkey \<Rightarrow> error + sshpub"
  MarshalAuthorizedKey :: "sshpub \<Rightarrow> bytes"
  MarshalPublicKey :: "privkey \<Rightarrow> error + bytes"
  GenerateUserCerts :: "event list \<Rightarrow> client \<Rightarrow> UserCertsRequest \<Rightarrow> error + certs"
  Register :: "event list \<Rightarrow> RegisterParams \<Rightarrow> error + RegisterResult"
  ParseAddr :: "string \<Rightarrow> error + netaddr"
  ParseCerts :: "certs \<Rightarrow> error + cert_info"
  LoadClientState :: "event list \<Rightarrow> string \<Rightarrow> error + bkstate"
  NewEmptyClientState :: "string \<Rightarrow> bkstate"
  ToJoinParams :: "bkstate \<Rightarrow> string \<Rightarrow> bkparams"
  UpdateFromRegisterResult :: "bkstate \<Rightarrow> RegisterResult \<Rightarrow> error + bkstate"
  StoreClientState :: "event list \<Rightarrow> bkstate \<Rightarrow> error option"

subsection \<open>The identity package (lib/tbot/identity)\<close>

definition NewFacade :: "bool \<Rightarrow> bool \<Rightarrow> identity \<Rightarrow> Facade" where
  \<comment> \<open>Modelled from the spec: \<open>identity.NewFacade\<close> (facade.go is missing); the facade
      owns exactly one current identity.\<close>
  "NewFacade fips insecure ident =
     \<lparr>fc_FIPS = fips, fc_Insecure = insecure, fc_identity = ident\<rparr>"

definition Facade_Get :: "Facade \<Rightarrow> identity" where
  \<comment> \<open>Modelled from the spec: \<open>Facade.Get\<close> (missing) returns the latest snapshot.\<close>
  "Facade_Get f = fc_identity f"

definition Facade_Set :: "Facade \<Rightarrow> identity \<Rightarrow> Facade" where
  \<comment> \<open>Modelled from the spec: \<open>Facade.Set\<close> (missing) replaces the snapshot.\<close>
  "Facade_Set f ident = f\<lparr>fc_identity := ident\<rparr>"

definition ReadIdentityFromStore ::
  "env \<Rightarrow> LoadIdentityParams \<Rightarrow> certs \<Rightarrow> error + identity" where
  \<comment> \<open>Modelled from the spec: \<open>identity.ReadIdentityFromStore\<close> (missing) assembles a
      new identity from the given key bytes and token hash and the certificate material
      of the response; it fails when that material does not parse.\<close>
  "ReadIdentityFromStore env params cs =
     (case ParseCerts env cs of
        Inl err \<Rightarrow> Inl err
      | Inr ci \<Rightarrow>
          Inr \<lparr>PrivateKeyBytes = lp_PrivateKeyBytes params,
               PublicKeyBytes = lp_PublicKeyBytes params,
               TokenHashBytes = lp_TokenHashBytes params,
               X509Cert_NotBefore = ci_NotBefore ci,
               X509Cert_NotAfter = ci_NotAfter ci,
               X509Cert_Subject_CommonName = ci_CommonName ci,
               TLSIdentity_Renewable = ci_Renewable ci,
               IssuedCerts = cs\<rparr>)"

subsection \<open>Loading the stored identity\<close>

definition hasTokenChanged :: "bytes \<Rightarrow> bytes \<Rightarrow> bool" where
  "hasTokenChanged configTokenBytes identityBytes =
     (if length configTokenBytes = 0 \<or> length identityBytes = 0 then False
      else \<not> (identityBytes = configTokenBytes))"

text \<open>
  Lines 254 to 274 of \<open>loadIdentityFromStore\<close>: the clock is read once, and the
  identity is returned with the verdict of the two comparisons. \<open>After\<close> and
  \<open>Before\<close> of Go's \<open>time.Time\<close> are strict.
\<close>

definition checkValidity :: "env \<Rightarrow> identity \<Rightarrow> world \<Rightarrow> identity option \<times> bool \<times> world" where
  "checkValidity env loadedIdent w =
     (let now = Now env (trace w);
          w1 = emit (EvNow now) w;
          valid = (if now > X509Cert_NotAfter loadedIdent then False
                   else if now < X509Cert_NotBefore loadedIdent then False
                   else True)
      in (Some loadedIdent, valid, w1))"

definition loadIdentityFromStore ::
  "env \<Rightarrow> Config \<Rightarrow> string \<Rightarrow> world \<Rightarrow> identity option \<times> bool \<times> world" where
  "loadIdentityFromStore env cfg store w =
     (case LoadIdentity env (trace w) store of
        Inl err \<Rightarrow> (None, False, emit (EvLoadIdentity store) w)
      | Inr loadedIdent \<Rightarrow>
          (let w1 = emit (EvLoadIdentity store) w in
           if HasToken (Onboarding cfg) then
             (case Token env (trace w1) of
                Inr token \<Rightarrow>
                  (let configTokenHashBytes = Sum256Hex env token in
                   if hasTokenChanged (TokenHashBytes loadedIdent) configTokenHashBytes
                   then (None, False, emit EvToken w1)
                   else checkValidity env loadedIdent (emit EvToken w1))
              | Inl err \<Rightarrow> checkValidity env loadedIdent (emit EvToken w1))
           else checkValidity env loadedIdent w1))"

subsection \<open>Joining with the token\<close>

text \<open>
  \<open>botIdentityFromToken\<close> is translated in four parts that follow its text: the
  parameters (lines 669 to 693), the switch on the address kind (695 to 710), the switch
  on the join method (712 to 748), and what follows \<open>join.Register\<close> (755 to 781).
\<close>

definition baseRegisterParams ::
  "Config \<Rightarrow> string \<Rightarrow> time \<Rightarrow> client option \<Rightarrow> RegisterParams" where
  "baseRegisterParams cfg token expires authClient =
     \<lparr>rp_Token = token,
      rp_ID_Role = RoleBot,
      rp_JoinMethod = JoinMethod (Onboarding cfg),
      rp_Expires = expires,
      rp_Insecure = Insecure (Connection cfg),
      rp_CAPins = CAPins (Onboarding cfg),
      rp_CAPath = CAPath (Onboarding cfg),
      rp_FIPS = FIPS cfg,
      rp_GetHostCredentials = HostCredentials,
      rp_CipherSuites = (if FIPS cfg then FIPSCipherSuites else DefaultCipherSuites),
      rp_AuthClient = authClient,
      rp_AuthServers = [],
      rp_ProxyServer = None,
      rp_AzureParams_ClientID = [],
      rp_TerraformCloudAudienceTag = [],
      rp_Env0AudienceTag = [],
      rp_GitlabParams_EnvVarName = [],
      rp_BoundKeypairParams = None\<rparr>"

definition setAddress :: "env \<Rightarrow> Config \<Rightarrow> RegisterParams \<Rightarrow> error + RegisterParams" where
  "setAddress env cfg params =
     (case AddressKind (Connection cfg) of
        AddressKindAuth \<Rightarrow>
          (case ParseAddr env (Address (Connection cfg)) of
             Inl err \<Rightarrow> Inl (Wrap err ''failed to parse addr'')
           | Inr parsed \<Rightarrow> Inr (params\<lparr>rp_AuthServers := [parsed]\<rparr>))
      | AddressKindProxy \<Rightarrow>
          (case ParseAddr env (Address (Connection cfg)) of
             Inl err \<Rightarrow> Inl (Wrap err ''failed to parse addr'')
           | Inr parsed \<Rightarrow> Inr (params\<lparr>rp_ProxyServer := Some parsed\<rparr>))
      | AddressKindOther k \<Rightarrow> Inl (BadParameter (''unsupported address kind: '' @ k)))"

definition setJoinMethodParams ::
  "env \<Rightarrow> Config \<Rightarrow> RegisterParams \<Rightarrow> world \<Rightarrow>
     (error + RegisterParams \<times> bkstate option) \<times> world" where
  "setJoinMethodParams env cfg params w =
     (case rp_JoinMethod params of
        JoinMethodAzure \<Rightarrow>
          (Inr (params\<lparr>rp_AzureParams_ClientID := Azure_ClientID (Onboarding cfg)\<rparr>, None), w)
      | JoinMethodTerraformCloud \<Rightarrow>
          (Inr (params\<lparr>rp_TerraformCloudAudienceTag := Terraform_AudienceTag (Onboarding cfg)\<rparr>,
                None), w)
      | JoinMethodEnv0 \<Rightarrow>
          (Inr (params\<lparr>rp_Env0AudienceTag := ''something''\<rparr>, None), w)
      | JoinMethodGitLab \<Rightarrow>
          (Inr (params\<lparr>rp_GitlabParams_EnvVarName := Gitlab_TokenEnvVarName (Onboarding cfg)\<rparr>,
                None), w)
      | JoinMethodBoundKeypair \<Rightarrow>
          (let joinSecret = BoundKeypair_RegistrationSecret (Onboarding cfg);
               adapter = Destination cfg;
               w1 = emit (EvLoadClientState adapter) w
           in case LoadClientState env (trace w) adapter of
                Inr st \<Rightarrow>
                  (Inr (params\<lparr>rp_BoundKeypairParams := Some (ToJoinParams env st joinSecret)\<rparr>,
                        Some st), w1)
              | Inl err \<Rightarrow>
                  if IsNotFound err \<and> joinSecret \<noteq> [] then
                    (let st = NewEmptyClientState env adapter in
                     (Inr (params\<lparr>rp_BoundKeypairParams :=
                                      Some (ToJoinParams env st joinSecret)\<rparr>, Some st), w1))
                  else (Inl (Wrap err ''loading bound keypair client state''), w1))
      | JoinMethodToken \<Rightarrow> (Inr (params, None), w)
      | JoinMethodOther m \<Rightarrow> (Inr (params, None), w))"

definition identityFromRegisterResult ::
  "env \<Rightarrow> RegisterParams \<Rightarrow> bkstate option \<Rightarrow> RegisterResult \<Rightarrow> world \<Rightarrow>
     (error + identity) \<times> world" where
  "identityFromRegisterResult env params boundKeypairState result w =
     (let stored =
            (case boundKeypairState of
               None \<Rightarrow> (None, w)
             | Some st \<Rightarrow>
                 (case UpdateFromRegisterResult env st result of
                    Inl err \<Rightarrow> (Some err, w)
                  | Inr st' \<Rightarrow>
                      (StoreClientState env (trace w) st', emit (EvStoreClientState st') w)))
      in case stored of
           (Some err, w1) \<Rightarrow> (Inl err, w1)
         | (None, w1) \<Rightarrow>
             (case MarshalPrivateKey env (rr_PrivateKey result) of
                Inl err \<Rightarrow> (Inl err, w1)
              | Inr privateKeyPEM \<Rightarrow>
                  (case NewPublicKey env (rr_PrivateKey result) of
                     Inl err \<Rightarrow> (Inl err, w1)
                   | Inr sshPub \<Rightarrow>
                       (let tokenHash = Sum256Hex env (rp_Token params)
                        in (ReadIdentityFromStore env
                              \<lparr>lp_PrivateKeyBytes = privateKeyPEM,
                               lp_PublicKeyBytes = MarshalAuthorizedKey env sshPub,
                               lp_TokenHashBytes = tokenHash\<rparr>
                              (rr_Certs result), w1)))))"

definition botIdentityFromToken ::
  "env \<Rightarrow> Config \<Rightarrow> client option \<Rightarrow> world \<Rightarrow> (error + identity) \<times> world" where
  "botIdentityFromToken env cfg authClient w =
     (case Token env (trace w) of
        Inl err \<Rightarrow> (Inl err, emit EvToken w)
      | Inr token \<Rightarrow>
          (let w1 = emit EvToken w;
               now = Now env (trace w1);
               w2 = emit (EvNow now) w1;
               expires = now + TTL cfg
           in case setAddress env cfg (baseRegisterParams cfg token expires authClient) of
                Inl err \<Rightarrow> (Inl err, w2)
              | Inr params1 \<Rightarrow>
                  (case setJoinMethodParams env cfg params1 w2 of
                     (Inl err, w3) \<Rightarrow> (Inl err, w3)
                   | (Inr (params, boundKeypairState), w3) \<Rightarrow>
                       (case Register env (trace w3) params of
                          Inl err \<Rightarrow> (Inl err, emit (EvRegister params) w3)
                        | Inr result \<Rightarrow>
                            identityFromRegisterResult env params boundKeypairState result
                              (emit (EvRegister params) w3)))))"

subsection \<open>Renewing through the auth server\<close>

definition botIdentityFromAuth ::
  "env \<Rightarrow> identity option \<Rightarrow> client option \<Rightarrow> int \<Rightarrow> world \<Rightarrow> (error + identity) \<times> world" where
  "botIdentityFromAuth env ident client ttl w =
     (case (ident, client) of
        (Some ident', Some client') \<Rightarrow>
          (let suite = GetCurrentSuiteFromAuthPreference client';
               w1 = emit (EvGenerateKey suite HostIdentity) w
           in case GenerateKey env (trace w) suite HostIdentity of
                Inl err \<Rightarrow> (Inl err, w1)
              | Inr key \<Rightarrow>
                  (case MarshalPrivateKey env key of
                     Inl err \<Rightarrow> (Inl err, w1)
                   | Inr privateKeyPEM \<Rightarrow>
                       (case NewPublicKey env key of
                          Inl err \<Rightarrow> (Inl err, w1)
                        | Inr sshPubKey \<Rightarrow>
                            (let sshPub = MarshalAuthorizedKey env sshPubKey
                             in case MarshalPublicKey env key of
                                  Inl err \<Rightarrow> (Inl err, w1)
                                | Inr tlsPub \<Rightarrow>
                                    (let now = Now env (trace w1);
                                         w2 = emit (EvNow now) w1;
                                         req = \<lparr>uc_SSHPublicKey = sshPub,
                                                uc_TLSPublicKey = tlsPub,
                                                uc_Username = X509Cert_Subject_CommonName ident',
                                                uc_Expires = now + ttl\<rparr>;
                                         w3 = emit (EvGenerateUserCerts client' req) w2
                                     in case GenerateUserCerts env (trace w2) client' req of
                                          Inl err \<Rightarrow> (Inl (Wrap err ''calling GenerateUserCerts''), w3)
                                        | Inr cs \<Rightarrow>
                                            (case ReadIdentityFromStore env
                                                    \<lparr>lp_PrivateKeyBytes = privateKeyPEM,
                                                     lp_PublicKeyBytes = sshPub,
                                                     lp_TokenHashBytes = TokenHashBytes ident'\<rparr> cs of
                                               Inl err \<Rightarrow>
                                                 (Inl (Wrap err ''reading renewed identity''), w3)
                                             | Inr newIdentity \<Rightarrow> (Inr newIdentity, w3)))))))
      | _ \<Rightarrow>
          (Inl (BadParameter
                  ''renewIdentityWithAuth must be called with non-nil client and identity''), w))"

definition wrapResult :: "(error + identity) \<times> world \<Rightarrow> string \<Rightarrow> (error + identity) \<times> world" where
  "wrapResult r msg =
     (case r of (Inl err, w) \<Rightarrow> (Inl (Wrap err msg), w) | (Inr newIdentity, w) \<Rightarrow> (Inr newIdentity, w))"

definition renewIdentity ::
  "env \<Rightarrow> Config \<Rightarrow> identity \<Rightarrow> world \<Rightarrow> (error + identity) \<times> world" where
  "renewIdentity env cfg oldIdentity w =
     (let facade = NewFacade (FIPS cfg) (Insecure (Connection cfg)) oldIdentity
      in case Build env (trace w) facade of
           Inl err \<Rightarrow> (Inl (Wrap err ''creating auth client''), emit (EvBuild facade) w)
         | Inr authClient \<Rightarrow>
             (let w1 = emit (EvBuild facade) w;
                  r =
                    (if TLSIdentity_Renewable oldIdentity then
                       wrapResult
                         (botIdentityFromAuth env (Some oldIdentity) (Some authClient) (TTL cfg) w1)
                         ''renewing identity using GenerateUserCert''
                     else
                       (let now = Now env (trace w1);
                            w2 = emit (EvNow now) w1
                        in if (case Expiry env facade of
                                 None \<Rightarrow> True
                               | Some expiry \<Rightarrow> now > expiry)
                           then
                             wrapResult (botIdentityFromToken env cfg None w2)
                               ''renewing identity using Register without existing auth client''
                           else
                             wrapResult (botIdentityFromToken env cfg (Some authClient) w2)
                               ''renewing identity using Register with existing auth client''))
              in (fst r, emit (EvClientClose authClient) (snd r))))"

subsection \<open>The service\<close>

record Service =
  sv_client :: "client option"
  sv_facade :: "Facade option"
  sv_initialized :: "chan option"
  sv_initializedOnce :: bool

text \<open>The fields of the service that \<open>NewService\<close> returns: all of them zero.\<close>

definition NewService :: Service where
  "NewService =
     \<lparr>sv_client = None, sv_facade = None, sv_initialized = None, sv_initializedOnce = False\<rparr>"

definition makeChan :: "world \<Rightarrow> chan \<times> world" where
  "makeChan w =
     (let c = length (chans w)
      in (c, emit (EvMakeChan c) (w\<lparr>chans := chans w @ [False]\<rparr>)))"

definition isClosed :: "world \<Rightarrow> chan \<Rightarrow> bool" where
  "isClosed w c = (c < length (chans w) \<and> chans w ! c)"

text \<open>Closing a closed channel panics, and so does closing one that was never made.\<close>

definition closeChan :: "chan \<Rightarrow> world \<Rightarrow> unit outcome \<times> world" where
  "closeChan c w =
     (if c < length (chans w) \<and> \<not> chans w ! c
      then (Return (), emit (EvCloseChan c) (w\<lparr>chans := (chans w)[c := True]\<rparr>))
      else (Panic, w))"

text \<open>
  \<open>Ready\<close> and \<open>unblockWaiters\<close> both start with
  \<^verbatim>\<open>if s.initialized == nil { s.initialized = make(chan struct{}) }\<close>;
  the result is the channel \<open>s.initialized\<close> then holds.
\<close>

definition ensureInitialized :: "Service \<Rightarrow> world \<Rightarrow> chan \<times> Service \<times> world" where
  "ensureInitialized s w =
     (case sv_initialized s of
        None \<Rightarrow> (case makeChan w of (c, w1) \<Rightarrow> (c, s\<lparr>sv_initialized := Some c\<rparr>, w1))
      | Some c \<Rightarrow> (c, s, w))"

definition Ready :: "Service \<Rightarrow> world \<Rightarrow> chan \<times> Service \<times> world" where
  "Ready s w = ensureInitialized s w"

definition IsReady :: "Service \<Rightarrow> world \<Rightarrow> bool \<times> Service \<times> world" where
  "IsReady s w = (case Ready s w of (c, s1, w1) \<Rightarrow> (isClosed w1 c, s1, w1))"

text \<open>
  \<open>sync.Once.Do\<close> runs the function on its first call only, and counts the call as
  done also when the function panics.
\<close>

definition unblockWaiters :: "Service \<Rightarrow> world \<Rightarrow> unit outcome \<times> Service \<times> world" where
  "unblockWaiters s w =
     (case ensureInitialized s w of
        (c, s1, w1) \<Rightarrow>
          if sv_initializedOnce s1 then (Return (), s1, w1)
          else (case closeChan c w1 of
                  (r, w2) \<Rightarrow> (r, s1\<lparr>sv_initializedOnce := True\<rparr>, w2)))"

text \<open>Lines 358 to 378 of \<open>Initialize\<close>, reached from both branches with a new identity.\<close>

definition Initialize_publish ::
  "env \<Rightarrow> Config \<Rightarrow> identity \<Rightarrow> Service \<Rightarrow> world \<Rightarrow> error option outcome \<times> Service \<times> world" where
  "Initialize_publish env cfg newIdentity s w =
     (let res = SaveIdentity env (trace w) newIdentity (Destination cfg);
          w1 = emit (EvSaveIdentity newIdentity (Destination cfg) res) w
      in case res of
           Some err \<Rightarrow> (Return (Some err), s, w1)
         | None \<Rightarrow>
             (let facade = NewFacade (FIPS cfg) (Insecure (Connection cfg)) newIdentity;
                  w2 = emit (EvBuild facade) w1
              in case Build env (trace w1) facade of
                   Inl err \<Rightarrow> (Return (Some err), s, w2)
                 | Inr c \<Rightarrow>
                     (let s1 = s\<lparr>sv_client := Some c, sv_facade := Some facade\<rparr>;
                          w3 = emit (EvFacadeSet newIdentity) w2
                      in case unblockWaiters s1 w3 of
                           (Panic, s2, w4) \<Rightarrow> (Panic, s2, w4)
                         | (Return u, s2, w4) \<Rightarrow>
                             (Return None, s2, emit (EvReport Healthy) w4))))"

definition Initialize ::
  "env \<Rightarrow> Config \<Rightarrow> Service \<Rightarrow> world \<Rightarrow> error option outcome \<times> Service \<times> world" where
  "Initialize env cfg s w =
     (case loadIdentityFromStore env cfg (Destination cfg) w of
        (loadedIdent, valid, w1) \<Rightarrow>
          if \<not> valid \<and> \<not> HasToken (Onboarding cfg) then
            (Return (Some (BadParameter
               ''no existing identity found on disk or join token configured'')), s, w1)
          else
            (case loadedIdent of
               None \<Rightarrow>
                 (case botIdentityFromToken env cfg None w1 of
                    (Inl err, w2) \<Rightarrow> (Return (Some (Wrap err ''joining with token'')), s, w2)
                  | (Inr newIdentity, w2) \<Rightarrow> Initialize_publish env cfg newIdentity s w2)
             | Some loadedIdent' \<Rightarrow>
                 (case (if valid then renewIdentity env cfg loadedIdent' w1
                        else botIdentityFromToken env cfg None w1) of
                    (Inl err, w2) \<Rightarrow>
                      (let facade = NewFacade (FIPS cfg) (Insecure (Connection cfg)) loadedIdent';
                           w3 = emit (EvBuild facade) w2
                       in case Build env (trace w2) facade of
                            Inl clientErr \<Rightarrow> (Return (Some clientErr), s, w3)
                          | Inr c \<Rightarrow>
                              (Return None,
                               s\<lparr>sv_facade := Some facade, sv_client := Some c\<rparr>,
                               emit (EvFacadeSet loadedIdent') w3))
                  | (Inr newIdentity, w2) \<Rightarrow> Initialize_publish env cfg newIdentity s w2)))"

text \<open>
  One renewal cycle. \<open>s.facade.Get()\<close> dereferences the facade, which is nil until
  \<open>Initialize\<close> has set it.
\<close>

definition renew ::
  "env \<Rightarrow> Config \<Rightarrow> string \<Rightarrow> Service \<Rightarrow> world \<Rightarrow> error option outcome \<times> Service \<times> world" where
  "renew env cfg botDestination s w =
     (case sv_facade s of
        None \<Rightarrow> (Panic, s, w)
      | Some f \<Rightarrow>
          (let currentIdentity = Facade_Get f;
               wres = VerifyWrite env (trace w) botDestination;
               w1 = emit (EvVerifyWrite botDestination wres) w
           in case wres of
                Some err \<Rightarrow>
                  (Return (Some (Wrap err
                     (''Cannot write to destination '' @ botDestination @ '', aborting.''))), s, w1)
              | None \<Rightarrow>
                  (case renewIdentity env cfg currentIdentity w1 of
                     (Inl err, w2) \<Rightarrow> (Return (Some (Wrap err ''renewing identity'')), s, w2)
                   | (Inr newIdentity, w2) \<Rightarrow>
                       (let s1 = s\<lparr>sv_facade := Some (Facade_Set f newIdentity)\<rparr>;
                            w3 = emit (EvFacadeSet newIdentity) w2;
                            sres = SaveIdentity env (trace w3) newIdentity botDestination;
                            w4 = emit (EvSaveIdentity newIdentity botDestination sres) w3
                        in case sres of
                             Some err \<Rightarrow> (Return (Some (Wrap err ''saving new identity'')), s1, w4)
                           | None \<Rightarrow> (Return None, s1, w4)))))"

subsection \<open>The events a run adds\<close>

definition newEvents :: "world \<Rightarrow> world \<Rightarrow> event list" where
  "newEvents w w' = drop (length (trace w)) (trace w')"

text \<open>
  \<open>adds P w w'\<close>: the history of \<open>w'\<close> extends that of \<open>w\<close> by events that all
  satisfy \<open>P\<close>.
\<close>

definition adds :: "(event \<Rightarrow> bool) \<Rightarrow> world \<Rightarrow> world \<Rightarrow> bool" where
  "adds P w w' \<longleftrightarrow>
     take (length (trace w)) (trace w') = trace w \<and> list_all P (newEvents w w')"

text \<open>
  The events of a join with the token: readings of the token and the clock, the bound
  keypair state, and \<open>join.Register\<close> called with parameters that satisfy \<open>R\<close>.
\<close>

fun joinEvent :: "(RegisterParams \<Rightarrow> bool) \<Rightarrow> event \<Rightarrow> bool" where
  "joinEvent R EvToken = True"
| "joinEvent R (EvNow t) = True"
| "joinEvent R (EvLoadClientState d) = True"
| "joinEvent R (EvStoreClientState st) = True"
| "joinEvent R (EvRegister p) = R p"
| "joinEvent R e = False"

text \<open>The events of loading the identity from \<open>store\<close>.\<close>

fun isLoadEvent :: "string \<Rightarrow> event \<Rightarrow> bool" where
  "isLoadEvent store (EvLoadIdentity d) = (d = store)"
| "isLoadEvent store EvToken = True"
| "isLoadEvent store (EvNow t) = True"
| "isLoadEvent store e = False"

text \<open>The events of persisting and publishing an identity and of the readiness gate.\<close>

fun isPublishEvent :: "event \<Rightarrow> bool" where
  "isPublishEvent (EvSaveIdentity i d r) = True"
| "isPublishEvent (EvBuild f) = True"
| "isPublishEvent (EvFacadeSet i) = True"
| "isPublishEvent (EvMakeChan c) = True"
| "isPublishEvent (EvCloseChan c) = True"
| "isPublishEvent (EvReport st) = True"
| "isPublishEvent e = False"

fun isCloseEvent :: "event \<Rightarrow> bool" where
  "isCloseEvent (EvCloseChan c) = True"
| "isCloseEvent e = False"

subsection \<open>Callers of the readiness gate\<close>

text \<open>
  The mutex of the service serialises \<open>Ready\<close>, \<open>IsReady\<close> and \<open>unblockWaiters\<close>,
  so what any number of goroutines do to the gate is a sequence of such calls. A panic
  ends the sequence.
\<close>

datatype gate_call = CallReady | CallIsReady | CallUnblockWaiters

datatype gate_result = GotChan chan | GotBool bool | Unblocked | Panicked

fun callGate :: "gate_call \<Rightarrow> Service \<Rightarrow> world \<Rightarrow> gate_result \<times> Service \<times> world" where
  "callGate CallReady s w = (case Ready s w of (c, s1, w1) \<Rightarrow> (GotChan c, s1, w1))"
| "callGate CallIsReady s w = (case IsReady s w of (b, s1, w1) \<Rightarrow> (GotBool b, s1, w1))"
| "callGate CallUnblockWaiters s w =
     (case unblockWaiters s w of
        (Panic, s1, w1) \<Rightarrow> (Panicked, s1, w1)
      | (Return u, s1, w1) \<Rightarrow> (Unblocked, s1, w1))"

fun callGates :: "gate_call list \<Rightarrow> Service \<Rightarrow> world \<Rightarrow> gate_result list \<times> Service \<times> world" where
  "callGates [] s w = ([], s, w)"
| "callGates (c # cs) s w =
     (case callGate c s w of
        (Panicked, s1, w1) \<Rightarrow> ([Panicked], s1, w1)
      | (r, s1, w1) \<Rightarrow> (case callGates cs s1 w1 of (rs, s2, w2) \<Rightarrow> (r # rs, s2, w2)))"

text \<open>
  The invariant of the gate, for the channel \<open>c0\<close> it uses and the flag \<open>u\<close> that says
  whether \<open>unblockWaiters\<close> has been called: the channel, once made, is \<open>c0\<close>, it is
  closed exactly when \<open>u\<close> holds, and so is the \<open>sync.Once\<close> done.
\<close>

definition gateInv :: "bool \<Rightarrow> chan \<Rightarrow> Service \<Rightarrow> world \<Rightarrow> bool" where
  "gateInv u c0 s w \<longleftrightarrow>
     (case sv_initialized s of
        None \<Rightarrow> \<not> u \<and> c0 = length (chans w)
      | Some c \<Rightarrow> c = c0 \<and> c0 < length (chans w) \<and> (chans w ! c0 \<longleftrightarrow> u))
     \<and> (sv_initializedOnce s \<longleftrightarrow> u)"

subsection \<open>An example deployment\<close>

text \<open>
  A store holding an identity obtained with the token \<open>tok-A\<close> and valid from 0 to 10,
  a cluster that answers every call, and a configuration with the token \<open>tok-A\<close>.
  The key generator numbers its keys by the length of the history. The scenarios below
  change single answers of this deployment.
\<close>

definition exampleIdentity :: identity where
  "exampleIdentity =
     \<lparr>PrivateKeyBytes = ''old-key'', PublicKeyBytes = ''old-pub'',
      TokenHashBytes = ''h:tok-A'', X509Cert_NotBefore = 0, X509Cert_NotAfter = 10,
      X509Cert_Subject_CommonName = ''bot-robot'', TLSIdentity_Renewable = False,
      IssuedCerts = 3\<rparr>"

definition exampleEnv :: env where
  "exampleEnv =
     \<lparr>Now = (\<lambda>h. 10),
      Token = (\<lambda>h. Inr ''tok-A''),
      Sum256Hex = (\<lambda>t. ''h:'' @ t),
      LoadIdentity = (\<lambda>h d. Inr exampleIdentity),
      SaveIdentity = (\<lambda>h i d. None),
      VerifyWrite = (\<lambda>h d. None),
      Build = (\<lambda>h f. Inr 1),
      Expiry = (\<lambda>f. Some (X509Cert_NotAfter (fc_identity f))),
      GenerateKey = (\<lambda>h s p. Inr (length h)),
      MarshalPrivateKey = (\<lambda>k. Inr (replicate k (CHR ''k''))),
      NewPublicKey = (\<lambda>k. Inr k),
      MarshalAuthorizedKey = (\<lambda>k. ''ssh-pub''),
      MarshalPublicKey = (\<lambda>k. Inr ''tls-pub''),
      GenerateUserCerts = (\<lambda>h c r. Inr 7),
      Register = (\<lambda>h p. Inr \<lparr>rr_PrivateKey = 5, rr_Certs = 9\<rparr>),
      ParseAddr = (\<lambda>a. Inr a),
      ParseCerts = (\<lambda>c. Inr \<lparr>ci_NotBefore = 10, ci_NotAfter = 20,
                                  ci_CommonName = ''bot-robot'', ci_Renewable = (c = 7)\<rparr>),
      LoadClientState = (\<lambda>h d. Inr 0),
      NewEmptyClientState = (\<lambda>d. 0),
      ToJoinParams = (\<lambda>st secret. st),
      UpdateFromRegisterResult = (\<lambda>st r. Inr st),
      StoreClientState = (\<lambda>h st. None)\<rparr>"

definition exampleConfig :: Config where
  "exampleConfig =
     \<lparr>Connection = \<lparr>Address = ''proxy.example.com:443'', AddressKind = AddressKindProxy,
                     Insecure = False\<rparr>,
      Onboarding = \<lparr>HasToken = True, JoinMethod = JoinMethodEnv0, CAPins = [], CAPath = [],
                     Azure_ClientID = [], Terraform_AudienceTag = ''tfc-tag'',
                     Gitlab_TokenEnvVarName = [], BoundKeypair_RegistrationSecret = []\<rparr>,
      Destination = ''dest'', TTL = 60, RenewalInterval = 20, FIPS = False\<rparr>"

definition emptyWorld :: world where
  "emptyWorld = \<lparr>trace = [], chans = []\<rparr>"

definition unavailable :: error where
  "unavailable = Error OtherError ''unavailable'' []"

definition notFound :: error where
  "notFound = Error NotFoundError ''identity not found'' []"

text \<open>The facade around the stored identity, and a service that runs with it.\<close>

definition exampleFacade :: Facade where
  "exampleFacade = NewFacade False False exampleIdentity"

definition runningService :: Service where
  "runningService =
     \<lparr>sv_client = Some 1, sv_facade = Some exampleFacade,
      sv_initialized = Some 0, sv_initializedOnce = True\<rparr>"

definition runningWorld :: world where
  "runningWorld = \<lparr>trace = [], chans = [True]\<rparr>"

text \<open>The world after the stored identity was loaded at the time \<open>now\<close>.\<close>

definition loadedWorld :: "time \<Rightarrow> world" where
  "loadedWorld now = \<lparr>trace = [EvLoadIdentity ''dest'', EvToken, EvNow now], chans = []\<rparr>"

text \<open>The identity a join yields in the example deployment, and the parameters it sends.\<close>

definition joinedIdentity :: identity where
  "joinedIdentity =
     \<lparr>PrivateKeyBytes = replicate 5 (CHR ''k''), PublicKeyBytes = ''ssh-pub'',
      TokenHashBytes = ''h:tok-A'', X509Cert_NotBefore = 10, X509Cert_NotAfter = 20,
      X509Cert_Subject_CommonName = ''bot-robot'', TLSIdentity_Renewable = False,
      IssuedCerts = 9\<rparr>"

definition exampleRegisterParams :: "Config \<Rightarrow> client option \<Rightarrow> RegisterParams" where
  "exampleRegisterParams cfg a =
     (baseRegisterParams cfg ''tok-A'' 70 a)\<lparr>rp_ProxyServer := Some ''proxy.example.com:443''\<rparr>"

subsection \<open>Scenarios\<close>

text \<open>The same deployment joining through Terraform Cloud.\<close>

definition terraformConfig :: Config where
  "terraformConfig =
     exampleConfig\<lparr>Onboarding := (Onboarding exampleConfig)\<lparr>JoinMethod := JoinMethodTerraformCloud\<rparr>\<rparr>"

text \<open>An empty store, and a configuration without a token.\<close>

definition emptyStoreEnv :: env where
  "emptyStoreEnv = exampleEnv\<lparr>LoadIdentity := (\<lambda>h d. Inl notFound)\<rparr>"

definition noTokenConfig :: Config where
  "noTokenConfig = exampleConfig\<lparr>Onboarding := (Onboarding exampleConfig)\<lparr>HasToken := False\<rparr>\<rparr>"

text \<open>A destination that cannot be written, and one on which every save fails.\<close>

definition readOnlyEnv :: env where
  "readOnlyEnv = exampleEnv\<lparr>VerifyWrite := (\<lambda>h d. Some unavailable)\<rparr>"

definition saveFailsEnv :: env where
  "saveFailsEnv = exampleEnv\<lparr>SaveIdentity := (\<lambda>h i d. Some unavailable)\<rparr>"

text \<open>
  A clock that reads 11, past the stored identity's expiry, with a cluster that answers
  and with one that refuses every join.
\<close>

definition lateEnv :: env where
  "lateEnv = exampleEnv\<lparr>Now := (\<lambda>h. 11)\<rparr>"

definition expiredDownEnv :: env where
  "expiredDownEnv = exampleEnv\<lparr>Now := (\<lambda>h. 11), Register := (\<lambda>h p. Inl unavailable)\<rparr>"

text \<open>The onboarding token has been changed to \<open>tok-B\<close> since the identity was stored.\<close>

definition rotatedEnv :: env where
  "rotatedEnv = exampleEnv\<lparr>Token := (\<lambda>h. Inr ''tok-B'')\<rparr>"

definition rejoinedIdentity :: identity where
  "rejoinedIdentity = joinedIdentity\<lparr>TokenHashBytes := ''h:tok-B''\<rparr>"

text \<open>A renewable identity in the store, and what its renewals send and yield.\<close>

definition renewableIdentity :: identity where
  "renewableIdentity = exampleIdentity\<lparr>TLSIdentity_Renewable := True\<rparr>"

definition renewedIdentity :: "nat \<Rightarrow> identity" where
  "renewedIdentity n =
     \<lparr>PrivateKeyBytes = replicate n (CHR ''k''), PublicKeyBytes = ''ssh-pub'',
      TokenHashBytes = ''h:tok-A'', X509Cert_NotBefore = 10, X509Cert_NotAfter = 20,
      X509Cert_Subject_CommonName = ''bot-robot'', TLSIdentity_Renewable = True,
      IssuedCerts = 7\<rparr>"

definition userCertsRequest :: UserCertsRequest where
  "userCertsRequest =
     \<lparr>uc_SSHPublicKey = ''ssh-pub'', uc_TLSPublicKey = ''tls-pub'',
      uc_Username = ''bot-robot'', uc_Expires = 70\<rparr>"

definition renewalEvents :: "event list" where
  "renewalEvents =
     [EvGenerateKey (GetCurrentSuiteFromAuthPreference 1) HostIdentity, EvNow 10,
      EvGenerateUserCerts 1 userCertsRequest]"

text \<open>The events of one renewal of \<open>old\<close> through the auth server.\<close>

definition renewalRun :: "identity \<Rightarrow> event list" where
  "renewalRun old =
     [EvBuild (NewFacade False False old)] @ renewalEvents @ [EvClientClose 1]"

text \<open>Three calls of \<open>unblockWaiters\<close> among calls of \<open>Ready\<close> and \<open>IsReady\<close>.\<close>

definition exampleCalls :: "gate_call list" where
  "exampleCalls =
     [CallIsReady, CallReady, CallUnblockWaiters, CallIsReady, CallUnblockWaiters,
      CallReady, CallUnblockWaiters, CallIsReady]"

section \<open>Properties\<close>

subsection \<open>Basic facts\<close>

lemma trace_emit [simp]: "trace (emit e w) = trace w @ [e]"
  by (simp add: emit_def)

lemma chans_emit [simp]: "chans (emit e w) = chans w"
  by (simp add: emit_def)

lemma newEvents_append: "trace w' = trace w @ evs \<Longrightarrow> newEvents w w' = evs"
  by (simp add: newEvents_def)

lemma checkValidity_eq:
  "checkValidity env ident w =
     (Some ident,
      X509Cert_NotBefore ident \<le> Now env (trace w) \<and> Now env (trace w) \<le> X509Cert_NotAfter ident,
      emit (EvNow (Now env (trace w))) w)"
  by (auto simp: checkValidity_def Let_def)

lemmas example_defs =
  exampleEnv_def exampleConfig_def exampleIdentity_def emptyWorld_def unavailable_def

subsection \<open>Validity of the loaded identity\<close>

text \<open>
  C5. Whenever \<open>loadIdentityFromStore\<close> returns an identity, it has read the clock
  last, and the identity is judged valid exactly when that reading \<open>now\<close> satisfies
  \<open>NotBefore \<le> now \<le> NotAfter\<close>, both bounds included; it is judged invalid exactly
  when \<open>now\<close> is strictly after \<open>NotAfter\<close> or strictly before \<open>NotBefore\<close>.
\<close>

theorem loadIdentityFromStore_valid_iff:
  assumes "loadIdentityFromStore env cfg store w = (Some ident, valid, w')"
  shows "\<exists>now h. trace w' = h @ [EvNow now] \<and> now = Now env h
           \<and> (valid \<longleftrightarrow> X509Cert_NotBefore ident \<le> now \<and> now \<le> X509Cert_NotAfter ident)
           \<and> (\<not> valid \<longleftrightarrow> now > X509Cert_NotAfter ident \<or> now < X509Cert_NotBefore ident)"
  using assms
  by (auto simp: loadIdentityFromStore_def checkValidity_eq Let_def
           split: sum.splits if_splits)

text \<open>The clock reads 10, which is the stored identity's \<open>NotAfter\<close>: it is valid.\<close>

theorem loadIdentityFromStore_valid_iff_witness:
  "loadIdentityFromStore exampleEnv exampleConfig ''dest'' emptyWorld =
     (Some exampleIdentity, True,
      \<lparr>trace = [EvLoadIdentity ''dest'', EvToken, EvNow 10], chans = []\<rparr>)
   \<and> (\<exists>now h. [EvLoadIdentity ''dest'', EvToken, EvNow 10] = h @ [EvNow now]
          \<and> (True \<longleftrightarrow> X509Cert_NotBefore exampleIdentity \<le> now
                     \<and> now \<le> X509Cert_NotAfter exampleIdentity))"
proof -
  have run: "loadIdentityFromStore exampleEnv exampleConfig ''dest'' emptyWorld =
     (Some exampleIdentity, True,
      \<lparr>trace = [EvLoadIdentity ''dest'', EvToken, EvNow 10], chans = []\<rparr>)"
    by (simp add: loadIdentityFromStore_def checkValidity_eq hasTokenChanged_def emit_def
          example_defs)
  from loadIdentityFromStore_valid_iff [OF run] run show ?thesis
    by auto
qed

subsection \<open>How the history grows\<close>

lemma adds_iff: "adds P w w' \<longleftrightarrow> (\<exists>evs. trace w' = trace w @ evs \<and> (\<forall>e\<in>set evs. P e))"
proof
  assume a: "adds P w w'"
  have "trace w' = take (length (trace w)) (trace w') @ drop (length (trace w)) (trace w')"
    by simp
  with a have "trace w' = trace w @ newEvents w w'"
    by (simp add: adds_def newEvents_def)
  moreover from a have "\<forall>e\<in>set (newEvents w w'). P e"
    by (simp add: adds_def list_all_iff)
  ultimately show "\<exists>evs. trace w' = trace w @ evs \<and> (\<forall>e\<in>set evs. P e)" by blast
next
  assume "\<exists>evs. trace w' = trace w @ evs \<and> (\<forall>e\<in>set evs. P e)"
  then show "adds P w w'"
    by (auto simp: adds_def newEvents_def list_all_iff)
qed

lemma adds_refl [simp]: "adds P w w"
  by (simp add: adds_iff)

lemma adds_emit [simp]: "adds P w w' \<Longrightarrow> P e \<Longrightarrow> adds P w (emit e w')"
  by (auto simp: adds_iff)

lemma adds_trans: "adds P w w1 \<Longrightarrow> adds P w1 w2 \<Longrightarrow> adds P w w2"
  by (auto simp: adds_iff)

lemma adds_mono: "adds P w w' \<Longrightarrow> (\<And>e. P e \<Longrightarrow> Q e) \<Longrightarrow> adds Q w w'"
  by (auto simp: adds_iff)

lemma adds_newEvents: "adds P w w' \<Longrightarrow> e \<in> set (newEvents w w') \<Longrightarrow> P e"
  by (auto simp: adds_def list_all_iff)

lemma setJoinMethodParams_adds:
  assumes "setJoinMethodParams env cfg params w = (r, w')"
  shows "adds (joinEvent R) w w'"
  using assms
  by (auto simp: setJoinMethodParams_def Let_def split: JoinMethod.splits sum.splits if_splits)

lemma identityFromRegisterResult_adds:
  assumes "identityFromRegisterResult env params b result w = (r, w')"
  shows "adds (joinEvent R) w1 w \<Longrightarrow> adds (joinEvent R) w1 w'"
  using assms
  by (auto simp: identityFromRegisterResult_def Let_def split: option.splits sum.splits if_splits)

text \<open>
  Whatever holds of the parameters that the three first parts of \<open>botIdentityFromToken\<close>
  build holds of the parameters \<open>join.Register\<close> is called with.
\<close>

lemma botIdentityFromToken_adds:
  assumes run: "botIdentityFromToken env cfg a w = (r, w')"
    and R: "\<And>token p1 p b w3.
              Token env (trace w) = Inr token \<Longrightarrow>
              setAddress env cfg
                (baseRegisterParams cfg token (Now env (trace w @ [EvToken]) + TTL cfg) a) = Inr p1 \<Longrightarrow>
              setJoinMethodParams env cfg p1
                (emit (EvNow (Now env (trace w @ [EvToken]))) (emit EvToken w)) = (Inr (p, b), w3) \<Longrightarrow>
              R p"
  shows "adds (joinEvent R) w w'"
proof (cases "Token env (trace w)")
  case (Inl err)
  with run show ?thesis by (auto simp: botIdentityFromToken_def)
next
  case (Inr token)
  define w2 where "w2 = emit (EvNow (Now env (trace w @ [EvToken]))) (emit EvToken w)"
  define p0 where "p0 = baseRegisterParams cfg token (Now env (trace w @ [EvToken]) + TTL cfg) a"
  have tr2: "adds (joinEvent R) w w2"
    by (simp add: w2_def)
  show ?thesis
  proof (cases "setAddress env cfg p0")
    case (Inl err)
    with run Inr have "w' = w2"
      by (simp add: botIdentityFromToken_def Let_def w2_def p0_def)
    with tr2 show ?thesis by simp
  next
    case p1: (Inr params1)
    obtain r3 w3 where s3: "setJoinMethodParams env cfg params1 w2 = (r3, w3)"
      by (cases "setJoinMethodParams env cfg params1 w2")
    from setJoinMethodParams_adds [OF s3, of R] tr2 have tr3: "adds (joinEvent R) w w3"
      by (blast intro: adds_trans)
    show ?thesis
    proof (cases r3)
      case (Inl err)
      with run Inr p1 s3 have "w' = w3"
        by (simp add: botIdentityFromToken_def Let_def w2_def p0_def)
      with tr3 show ?thesis by simp
    next
      case r3: (Inr pb)
      obtain params b where pb: "pb = (params, b)" by (cases pb)
      from R [OF Inr p1 [unfolded p0_def] s3 [unfolded w2_def r3 pb]] have pa: "R params" .
      show ?thesis
      proof (cases "Register env (trace w3) params")
        case (Inl err)
        with run Inr p1 s3 r3 pb have "w' = emit (EvRegister params) w3"
          by (simp add: botIdentityFromToken_def Let_def w2_def p0_def)
        with tr3 pa show ?thesis by simp
      next
        case res: (Inr result)
        with run Inr p1 s3 r3 pb
        have "identityFromRegisterResult env params b result (emit (EvRegister params) w3) = (r, w')"
          by (simp add: botIdentityFromToken_def Let_def w2_def p0_def)
        from identityFromRegisterResult_adds [OF this, of R w] tr3 pa show ?thesis by simp
      qed
    qed
  qed
qed

lemma setAddress_keeps:
  assumes "setAddress env cfg params = Inr p"
  shows "rp_AuthClient p = rp_AuthClient params" and "rp_JoinMethod p = rp_JoinMethod params"
    and "rp_Env0AudienceTag p = rp_Env0AudienceTag params"
    and "rp_TerraformCloudAudienceTag p = rp_TerraformCloudAudienceTag params"
  using assms
  by (auto simp: setAddress_def split: AddressKind.splits sum.splits)

lemma setJoinMethodParams_AuthClient:
  assumes "setJoinMethodParams env cfg params w = (Inr (p, b), w')"
  shows "rp_AuthClient p = rp_AuthClient params"
  using assms
  by (auto simp: setJoinMethodParams_def Let_def split: JoinMethod.splits sum.splits if_splits)

text \<open>A join with the auth client \<open>a\<close> passes \<open>a\<close> to every \<open>join.Register\<close>.\<close>

lemma botIdentityFromToken_AuthClient:
  assumes "botIdentityFromToken env cfg a w = (r, w')"
  shows "adds (joinEvent (\<lambda>p. rp_AuthClient p = a)) w w'"
  using assms
proof (rule botIdentityFromToken_adds)
  fix token p1 p b w3
  assume "setAddress env cfg
            (baseRegisterParams cfg token (Now env (trace w @ [EvToken]) + TTL cfg) a) = Inr p1"
    and "setJoinMethodParams env cfg p1
           (emit (EvNow (Now env (trace w @ [EvToken]))) (emit EvToken w)) = (Inr (p, b), w3)"
  then show "rp_AuthClient p = a"
    by (simp add: setAddress_keeps setJoinMethodParams_AuthClient baseRegisterParams_def)
qed

lemma identityFromRegisterResult_None_world:
  "identityFromRegisterResult env params None result w = (r, w') \<Longrightarrow> w' = w"
  by (auto simp: identityFromRegisterResult_def split: sum.splits)

subsection \<open>The audience tag of an Env0 join\<close>

text \<open>
  C10. When the join method is Env0, every call of \<open>join.Register\<close> that
  \<open>botIdentityFromToken\<close> makes carries the audience tag \<open>something\<close>, whatever
  the configuration holds, and the call is made as soon as the token is read and the
  address parses. With the Terraform Cloud join method the audience tag is the
  configured one.
\<close>

theorem botIdentityFromToken_audience_tag:
  assumes run: "botIdentityFromToken env cfg a w = (r, w')"
  shows "(JoinMethod (Onboarding cfg) = JoinMethodEnv0 \<longrightarrow>
            (\<forall>p. EvRegister p \<in> set (newEvents w w') \<longrightarrow> rp_Env0AudienceTag p = ''something'')
          \<and> (\<forall>token p1. Token env (trace w) = Inr token
                \<and> setAddress env cfg
                     (baseRegisterParams cfg token (Now env (trace w @ [EvToken]) + TTL cfg) a) = Inr p1
               \<longrightarrow> newEvents w w' = [EvToken, EvNow (Now env (trace w @ [EvToken])),
                                      EvRegister (p1\<lparr>rp_Env0AudienceTag := ''something''\<rparr>)]))
       \<and> (JoinMethod (Onboarding cfg) = JoinMethodTerraformCloud \<longrightarrow>
            (\<forall>p. EvRegister p \<in> set (newEvents w w') \<longrightarrow>
                 rp_TerraformCloudAudienceTag p = Terraform_AudienceTag (Onboarding cfg)))"
proof (intro conjI impI allI)
  fix p
  assume jm: "JoinMethod (Onboarding cfg) = JoinMethodEnv0"
    and ev: "EvRegister p \<in> set (newEvents w w')"
  have "adds (joinEvent (\<lambda>p. rp_Env0AudienceTag p = ''something'')) w w'"
    using run
  proof (rule botIdentityFromToken_adds)
    fix token p1 p b w3
    assume "setAddress env cfg
              (baseRegisterParams cfg token (Now env (trace w @ [EvToken]) + TTL cfg) a) = Inr p1"
      and "setJoinMethodParams env cfg p1
             (emit (EvNow (Now env (trace w @ [EvToken]))) (emit EvToken w)) = (Inr (p, b), w3)"
    with jm show "rp_Env0AudienceTag p = ''something''"
      by (auto simp: setJoinMethodParams_def setAddress_keeps(2) baseRegisterParams_def)
  qed
  from adds_newEvents [OF this ev] show "rp_Env0AudienceTag p = ''something''"
    by simp
next
  fix token p1
  assume jm: "JoinMethod (Onboarding cfg) = JoinMethodEnv0"
    and h: "Token env (trace w) = Inr token
      \<and> setAddress env cfg
           (baseRegisterParams cfg token (Now env (trace w @ [EvToken]) + TTL cfg) a) = Inr p1"
  then have tok: "Token env (trace w) = Inr token"
    and adr: "setAddress env cfg
           (baseRegisterParams cfg token (Now env (trace w @ [EvToken]) + TTL cfg) a) = Inr p1"
    by simp_all
  from adr jm have pj: "rp_JoinMethod p1 = JoinMethodEnv0"
    by (simp add: setAddress_keeps(2) baseRegisterParams_def)
  define w2 where "w2 = emit (EvNow (Now env (trace w @ [EvToken]))) (emit EvToken w)"
  define params where "params = p1\<lparr>rp_Env0AudienceTag := ''something''\<rparr>"
  have sj: "setJoinMethodParams env cfg p1 w2 = (Inr (params, None), w2)"
    using pj by (simp add: setJoinMethodParams_def params_def)
  have "w' = emit (EvRegister params) w2"
  proof (cases "Register env (trace w2) params")
    case (Inl err)
    with run tok adr sj show ?thesis
      by (simp add: botIdentityFromToken_def Let_def w2_def)
  next
    case (Inr result)
    with run tok adr sj
    have "identityFromRegisterResult env params None result (emit (EvRegister params) w2) = (r, w')"
      by (simp add: botIdentityFromToken_def Let_def w2_def)
    then show ?thesis by (rule identityFromRegisterResult_None_world)
  qed
  then show "newEvents w w' = [EvToken, EvNow (Now env (trace w @ [EvToken])),
                                      EvRegister (p1\<lparr>rp_Env0AudienceTag := ''something''\<rparr>)]"
    by (simp add: newEvents_def w2_def params_def)
next
  fix p
  assume jm: "JoinMethod (Onboarding cfg) = JoinMethodTerraformCloud"
    and ev: "EvRegister p \<in> set (newEvents w w')"
  have "adds (joinEvent (\<lambda>p. rp_TerraformCloudAudienceTag p = Terraform_AudienceTag (Onboarding cfg))) w w'"
    using run
  proof (rule botIdentityFromToken_adds)
    fix token p1 p b w3
    assume "setAddress env cfg
              (baseRegisterParams cfg token (Now env (trace w @ [EvToken]) + TTL cfg) a) = Inr p1"
      and "setJoinMethodParams env cfg p1
             (emit (EvNow (Now env (trace w @ [EvToken]))) (emit EvToken w)) = (Inr (p, b), w3)"
    with jm show "rp_TerraformCloudAudienceTag p = Terraform_AudienceTag (Onboarding cfg)"
      by (auto simp: setJoinMethodParams_def setAddress_keeps(2) baseRegisterParams_def)
  qed
  from adds_newEvents [OF this ev]
  show "rp_TerraformCloudAudienceTag p = Terraform_AudienceTag (Onboarding cfg)"
    by simp
qed

lemmas run_defs =
  botIdentityFromToken_def setAddress_def setJoinMethodParams_def
  identityFromRegisterResult_def ReadIdentityFromStore_def baseRegisterParams_def
  emit_def

theorem botIdentityFromToken_audience_tag_witness:
  "botIdentityFromToken exampleEnv exampleConfig None emptyWorld =
     (Inr joinedIdentity,
      \<lparr>trace = [EvToken, EvNow 10,
         EvRegister ((exampleRegisterParams exampleConfig None)
                       \<lparr>rp_Env0AudienceTag := ''something''\<rparr>)], chans = []\<rparr>)
   \<and> JoinMethod (Onboarding exampleConfig) = JoinMethodEnv0
   \<and> rp_Env0AudienceTag ((exampleRegisterParams exampleConfig None)
                       \<lparr>rp_Env0AudienceTag := ''something''\<rparr>) = ''something''
   \<and> botIdentityFromToken exampleEnv terraformConfig None emptyWorld =
     (Inr joinedIdentity,
      \<lparr>trace = [EvToken, EvNow 10,
         EvRegister ((exampleRegisterParams terraformConfig None)
                       \<lparr>rp_TerraformCloudAudienceTag := ''tfc-tag''\<rparr>)], chans = []\<rparr>)
   \<and> JoinMethod (Onboarding terraformConfig) = JoinMethodTerraformCloud
   \<and> rp_TerraformCloudAudienceTag ((exampleRegisterParams terraformConfig None)
                       \<lparr>rp_TerraformCloudAudienceTag := ''tfc-tag''\<rparr>) =
       Terraform_AudienceTag (Onboarding terraformConfig)"
proof -
  let ?p1 = "(exampleRegisterParams exampleConfig None)\<lparr>rp_Env0AudienceTag := ''something''\<rparr>"
  let ?w1 = "\<lparr>trace = [EvToken, EvNow 10, EvRegister ?p1], chans = []\<rparr>"
  let ?p2 = "(exampleRegisterParams terraformConfig None)
               \<lparr>rp_TerraformCloudAudienceTag := ''tfc-tag''\<rparr>"
  let ?w2 = "\<lparr>trace = [EvToken, EvNow 10, EvRegister ?p2], chans = []\<rparr>"
  have run1: "botIdentityFromToken exampleEnv exampleConfig None emptyWorld = (Inr joinedIdentity, ?w1)"
    by (simp add: run_defs example_defs joinedIdentity_def exampleRegisterParams_def)
  have run2: "botIdentityFromToken exampleEnv terraformConfig None emptyWorld = (Inr joinedIdentity, ?w2)"
    by (simp add: run_defs example_defs joinedIdentity_def exampleRegisterParams_def
          terraformConfig_def)
  have jm1: "JoinMethod (Onboarding exampleConfig) = JoinMethodEnv0"
    by (simp add: example_defs)
  have jm2: "JoinMethod (Onboarding terraformConfig) = JoinMethodTerraformCloud"
    by (simp add: example_defs terraformConfig_def)
  have ev1: "EvRegister ?p1 \<in> set (newEvents emptyWorld ?w1)"
    by (simp add: newEvents_def emptyWorld_def)
  have ev2: "EvRegister ?p2 \<in> set (newEvents emptyWorld ?w2)"
    by (simp add: newEvents_def emptyWorld_def)
  from botIdentityFromToken_audience_tag [OF run1] jm1 ev1
  have "rp_Env0AudienceTag ?p1 = ''something''" by blast
  moreover from botIdentityFromToken_audience_tag [OF run2] jm2 ev2
  have "rp_TerraformCloudAudienceTag ?p2 = Terraform_AudienceTag (Onboarding terraformConfig)"
    by blast
  ultimately show ?thesis using run1 run2 jm1 jm2 by simp
qed

lemma loadIdentityFromStore_adds:
  assumes "loadIdentityFromStore env cfg store w = (li, valid, w')"
  shows "adds (isLoadEvent store) w w'"
  using assms
  by (auto simp: loadIdentityFromStore_def checkValidity_eq Let_def
           split: sum.splits if_splits)

lemma snd_wrapResult [simp]: "snd (wrapResult r msg) = snd r"
  by (auto simp: wrapResult_def split: prod.splits sum.splits)

lemma fst_wrapResult_Inr [simp]: "fst (wrapResult r msg) = Inr i \<longleftrightarrow> fst r = Inr i"
  by (auto simp: wrapResult_def split: prod.splits sum.splits)

lemma botIdentityFromAuth_adds:
  assumes "botIdentityFromAuth env i c ttl w = (r, w')"
  shows "adds (\<lambda>e. True) w w'"
  using assms
  by (auto simp: botIdentityFromAuth_def Let_def split: option.splits sum.splits)

lemma botIdentityFromToken_adds_any:
  assumes "botIdentityFromToken env cfg a w = (r, w')"
  shows "adds (\<lambda>e. True) w w'"
  by (rule adds_mono [OF botIdentityFromToken_adds [OF assms, of "\<lambda>p. True"]]) simp_all

lemma renewIdentity_adds:
  assumes "renewIdentity env cfg old w = (r, w')"
  shows "adds (\<lambda>e. True) w w'"
proof (cases "Build env (trace w) (NewFacade (FIPS cfg) (Insecure (Connection cfg)) old)")
  case (Inl err)
  with assms show ?thesis by (auto simp: renewIdentity_def Let_def)
next
  case (Inr c)
  define w1 where "w1 = emit (EvBuild (NewFacade (FIPS cfg) (Insecure (Connection cfg)) old)) w"
  define w2 where "w2 = emit (EvNow (Now env (trace w1))) w1"
  have a1: "adds (\<lambda>e. True) w w1" and a2: "adds (\<lambda>e. True) w w2"
    by (simp_all add: w1_def w2_def)
  have b1: "adds (\<lambda>e. True) w (snd (botIdentityFromAuth env (Some old) (Some c) (TTL cfg) w1))"
    by (rule adds_trans [OF a1 botIdentityFromAuth_adds]) (rule surjective_pairing)
  have b2: "adds (\<lambda>e. True) w (snd (botIdentityFromToken env cfg a w2))" for a
    by (rule adds_trans [OF a2 botIdentityFromToken_adds_any]) (rule surjective_pairing)
  from assms Inr show ?thesis
    using b1 b2 [of None] b2 [of "Some c"]
    by (auto simp: renewIdentity_def Let_def w1_def w2_def split: if_splits)
qed

lemma unblockWaiters_adds:
  assumes "unblockWaiters s w = (r, s', w')"
  shows "adds isPublishEvent w w'"
  using assms
  by (auto simp: unblockWaiters_def ensureInitialized_def makeChan_def closeChan_def Let_def
                 adds_iff emit_def
           split: option.splits if_splits prod.splits)

lemma Initialize_publish_adds:
  assumes "Initialize_publish env cfg new s w = (r, s', w')"
  shows "adds isPublishEvent w w'"
proof -
  have u: "adds isPublishEvent w1 (snd (snd (unblockWaiters s1 w1)))" for s1 w1
    by (rule unblockWaiters_adds [of s1 w1 "fst (unblockWaiters s1 w1)"
          "fst (snd (unblockWaiters s1 w1))"]) simp
  have u': "adds isPublishEvent w0 w1 \<Longrightarrow> adds isPublishEvent w0 (snd (snd (unblockWaiters s1 w1)))"
    for s1 w0 w1
    by (rule adds_trans [OF _ u])
  from assms show ?thesis
    using u' [of w]
    apply (auto simp: Initialize_publish_def Let_def
        split: option.splits sum.splits prod.splits outcome.splits)
     apply (metis adds_emit adds_refl isPublishEvent.simps(1,2,3) snd_conv)
    apply (metis adds_emit adds_refl isPublishEvent.simps(1,2,3,6) snd_conv)
    done
qed

lemmas scenario_defs =
  notFound_def emptyStoreEnv_def noTokenConfig_def readOnlyEnv_def exampleFacade_def
  runningService_def runningWorld_def expiredDownEnv_def lateEnv_def

subsection \<open>No identity and no token\<close>

text \<open>
  C4. If \<open>loadIdentityFromStore\<close> yields no valid identity and no onboarding token is
  configured, \<open>Initialize\<close> returns the BadParameter error
  "no existing identity found on disk or join token configured" at once: the service,
  and with it the facade, is unchanged, and the only effects since the start are those
  of loading (reading the store, the token and the clock): no join, no renewal, no
  client, nothing published.
\<close>

theorem Initialize_no_identity_no_token:
  assumes load: "loadIdentityFromStore env cfg (Destination cfg) w = (li, False, w1)"
    and notoken: "\<not> HasToken (Onboarding cfg)"
  shows "Initialize env cfg s w =
           (Return (Some (BadParameter
              ''no existing identity found on disk or join token configured'')), s, w1)
         \<and> IsBadParameter (BadParameter
              ''no existing identity found on disk or join token configured'')
         \<and> (\<forall>e \<in> set (newEvents w w1). isLoadEvent (Destination cfg) e)"
  using assms adds_newEvents [OF loadIdentityFromStore_adds [OF load]]
  by (simp add: Initialize_def BadParameter_def)

text \<open>An empty store and no token.\<close>

theorem Initialize_no_identity_no_token_witness:
  "loadIdentityFromStore emptyStoreEnv noTokenConfig (Destination noTokenConfig) emptyWorld =
     (None, False, \<lparr>trace = [EvLoadIdentity ''dest''], chans = []\<rparr>)
   \<and> \<not> HasToken (Onboarding noTokenConfig)
   \<and> Initialize emptyStoreEnv noTokenConfig NewService emptyWorld =
       (Return (Some (BadParameter
          ''no existing identity found on disk or join token configured'')),
        NewService, \<lparr>trace = [EvLoadIdentity ''dest''], chans = []\<rparr>)"
proof -
  have load: "loadIdentityFromStore emptyStoreEnv noTokenConfig (Destination noTokenConfig)
      emptyWorld = (None, False, \<lparr>trace = [EvLoadIdentity ''dest''], chans = []\<rparr>)"
    by (simp add: loadIdentityFromStore_def emit_def scenario_defs example_defs)
  have notoken: "\<not> HasToken (Onboarding noTokenConfig)"
    by (simp add: scenario_defs example_defs)
  from Initialize_no_identity_no_token [OF load notoken, of NewService] load notoken
  show ?thesis by simp
qed

subsection \<open>After a successful \<open>Initialize\<close> the facade is set\<close>

lemma unblockWaiters_facade:
  "unblockWaiters s w = (r, s', w') \<Longrightarrow> sv_facade s' = sv_facade s \<and> sv_client s' = sv_client s"
  by (auto simp: unblockWaiters_def ensureInitialized_def makeChan_def closeChan_def Let_def
           split: option.splits if_splits prod.splits)

lemma Initialize_publish_facade:
  assumes "Initialize_publish env cfg new s w = (Return None, s', w')"
  shows "sv_facade s' = Some (NewFacade (FIPS cfg) (Insecure (Connection cfg)) new)"
  using assms
  by (auto simp: Initialize_publish_def Let_def
           split: option.splits sum.splits prod.splits outcome.splits
           dest!: unblockWaiters_facade)

lemma Initialize_sets_facade:
  assumes "Initialize env cfg s w = (Return None, s', w')"
  shows "\<exists>f. sv_facade s' = Some f"
  using assms
  by (auto simp: Initialize_def Let_def
           split: option.splits sum.splits prod.splits if_splits
           dest!: Initialize_publish_facade)

subsection \<open>The writability check of a renewal cycle\<close>

text \<open>
  C9. A renewal cycle (\<open>renew\<close>, run with the facade that \<open>Initialize\<close> has set)
  starts by verifying that the destination is writable. If that check fails, the cycle
  returns the error, the check is its only effect (no renewal or join is attempted), and
  the service, with the identity its facade holds, is unchanged.
\<close>

theorem renew_verifies_write_first:
  assumes fac: "sv_facade s = Some f"
    and run: "renew env cfg botDestination s w = (r, s', w')"
  shows "(\<exists>evs. newEvents w w' =
            EvVerifyWrite botDestination (VerifyWrite env (trace w) botDestination) # evs)
         \<and> (\<forall>err. VerifyWrite env (trace w) botDestination = Some err \<longrightarrow>
               r = Return (Some (Wrap err
                     (''Cannot write to destination '' @ botDestination @ '', aborting.'')))
               \<and> s' = s
               \<and> newEvents w w' = [EvVerifyWrite botDestination (Some err)])"
proof (cases "VerifyWrite env (trace w) botDestination")
  case (Some err)
  with fac run show ?thesis
    by (auto simp: renew_def Let_def newEvents_def)
next
  case None
  define w1 where "w1 = emit (EvVerifyWrite botDestination None) w"
  obtain r2 w2 where ri: "renewIdentity env cfg (Facade_Get f) w1 = (r2, w2)"
    by (cases "renewIdentity env cfg (Facade_Get f) w1")
  from renewIdentity_adds [OF ri] obtain evs where "trace w2 = trace w1 @ evs"
    by (auto simp: adds_iff)
  then have t2: "trace w2 = trace w @ EvVerifyWrite botDestination None # evs"
    by (simp add: w1_def)
  from fac run None ri t2 have "\<exists>evs'. trace w' = trace w @ EvVerifyWrite botDestination None # evs'"
    by (auto simp: renew_def Let_def w1_def split: sum.splits option.splits)
  with None show ?thesis
    by (auto simp: newEvents_def)
qed

text \<open>A running service whose destination has become unwritable.\<close>

theorem renew_verifies_write_first_witness:
  "sv_facade runningService = Some exampleFacade
   \<and> renew readOnlyEnv exampleConfig ''dest'' runningService runningWorld =
       (Return (Some (Wrap unavailable ''Cannot write to destination dest, aborting.'')),
        runningService,
        \<lparr>trace = [EvVerifyWrite ''dest'' (Some unavailable)], chans = [True]\<rparr>)
   \<and> newEvents runningWorld
        \<lparr>trace = [EvVerifyWrite ''dest'' (Some unavailable)], chans = [True]\<rparr> =
       [EvVerifyWrite ''dest'' (Some unavailable)]"
proof -
  have fac: "sv_facade runningService = Some exampleFacade"
    by (simp add: scenario_defs)
  have run: "renew readOnlyEnv exampleConfig ''dest'' runningService runningWorld =
       (Return (Some (Wrap unavailable ''Cannot write to destination dest, aborting.'')),
        runningService,
        \<lparr>trace = [EvVerifyWrite ''dest'' (Some unavailable)], chans = [True]\<rparr>)"
    by (simp add: renew_def emit_def scenario_defs example_defs)
  have vw: "VerifyWrite readOnlyEnv (trace runningWorld) ''dest'' = Some unavailable"
    by (simp add: scenario_defs example_defs)
  from renew_verifies_write_first [OF fac run] vw fac run show ?thesis
    by simp
qed

subsection \<open>Falling back on the stored identity\<close>

text \<open>
  C3. If an identity was loaded from the store (valid or not), the renewal or join that
  \<open>Initialize\<close> then attempts fails, and a client can be built around the loaded
  identity, then \<open>Initialize\<close> returns no error and the facade holds the loaded
  identity. (An attempt is made when the identity is valid or a token is configured.)
\<close>

theorem Initialize_fallback:
  fixes cfg ident
  defines "facade \<equiv> NewFacade (FIPS cfg) (Insecure (Connection cfg)) ident"
  assumes load: "loadIdentityFromStore env cfg (Destination cfg) w = (Some ident, valid, w1)"
    and attempted: "valid \<or> HasToken (Onboarding cfg)"
    and failed: "(if valid then renewIdentity env cfg ident w1
                  else botIdentityFromToken env cfg None w1) = (Inl err, w2)"
    and build: "Build env (trace w2) facade = Inr c"
  shows "Initialize env cfg s w =
           (Return None, s\<lparr>sv_facade := Some facade, sv_client := Some c\<rparr>,
            emit (EvFacadeSet ident) (emit (EvBuild facade) w2))
         \<and> Facade_Get facade = ident"
  using assms
  by (auto simp: Initialize_def Let_def NewFacade_def Facade_Get_def)

text \<open>The stored identity has expired and the cluster refuses the join.\<close>

theorem Initialize_fallback_witness:
  "loadIdentityFromStore expiredDownEnv exampleConfig (Destination exampleConfig) emptyWorld =
     (Some exampleIdentity, False, loadedWorld 11)
   \<and> HasToken (Onboarding exampleConfig)
   \<and> botIdentityFromToken expiredDownEnv exampleConfig None (loadedWorld 11) =
       (Inl unavailable,
        emit (EvRegister ((exampleRegisterParams exampleConfig None)
                \<lparr>rp_Expires := 71, rp_Env0AudienceTag := ''something''\<rparr>))
          (emit (EvNow 11) (emit EvToken (loadedWorld 11))))
   \<and> fst (Initialize expiredDownEnv exampleConfig NewService emptyWorld) = Return None
   \<and> sv_facade (fst (snd (Initialize expiredDownEnv exampleConfig NewService emptyWorld))) =
       Some exampleFacade
   \<and> Facade_Get exampleFacade = exampleIdentity"
proof -
  let ?w2 = "emit (EvRegister ((exampleRegisterParams exampleConfig None)
                \<lparr>rp_Expires := 71, rp_Env0AudienceTag := ''something''\<rparr>))
          (emit (EvNow 11) (emit EvToken (loadedWorld 11)))"
  have load: "loadIdentityFromStore expiredDownEnv exampleConfig (Destination exampleConfig)
      emptyWorld = (Some exampleIdentity, False, loadedWorld 11)"
    by (simp add: loadIdentityFromStore_def checkValidity_eq hasTokenChanged_def emit_def
          loadedWorld_def scenario_defs example_defs)
  have tok: "False \<or> HasToken (Onboarding exampleConfig)"
    by (simp add: example_defs)
  have failed: "(if False then renewIdentity expiredDownEnv exampleConfig exampleIdentity (loadedWorld 11)
       else botIdentityFromToken expiredDownEnv exampleConfig None (loadedWorld 11)) =
       (Inl unavailable, ?w2)"
    by (simp add: run_defs exampleRegisterParams_def loadedWorld_def scenario_defs example_defs)
  have build: "Build expiredDownEnv (trace ?w2)
      (NewFacade (FIPS exampleConfig) (Insecure (Connection exampleConfig)) exampleIdentity) = Inr 1"
    by (simp add: scenario_defs example_defs)
  have fac: "NewFacade (FIPS exampleConfig) (Insecure (Connection exampleConfig)) exampleIdentity
      = exampleFacade"
    by (simp add: scenario_defs example_defs)
  from Initialize_fallback [OF load tok failed build, of NewService] load tok failed fac
  show ?thesis by simp
qed

subsection \<open>Lightweight renewal\<close>

text \<open>
  C7. For an identity that is not renewable, once the client \<open>c\<close> is built around it:
  if its expiry is known and the clock is not after it, the join is run with \<open>c\<close> as
  auth client, and every \<open>join.Register\<close> of the renewal carries \<open>c\<close>; if the expiry
  is unknown or the clock is strictly after it, the join is run without auth client, and
  every \<open>join.Register\<close> of the renewal carries none.
\<close>

theorem renewIdentity_lightweight:
  fixes env cfg old w
  defines "facade \<equiv> NewFacade (FIPS cfg) (Insecure (Connection cfg)) old"
  defines "now \<equiv> Now env (trace w @ [EvBuild facade])"
  defines "w2 \<equiv> emit (EvNow now) (emit (EvBuild facade) w)"
  assumes nr: "\<not> TLSIdentity_Renewable old"
    and build: "Build env (trace w) facade = Inr c"
    and run: "renewIdentity env cfg old w = (r, w')"
  shows "((\<exists>expiry. Expiry env facade = Some expiry \<and> \<not> now > expiry) \<longrightarrow>
            (r, w') =
              (fst (wrapResult (botIdentityFromToken env cfg (Some c) w2)
                      ''renewing identity using Register with existing auth client''),
               emit (EvClientClose c) (snd (botIdentityFromToken env cfg (Some c) w2)))
            \<and> (\<forall>p. EvRegister p \<in> set (newEvents w w') \<longrightarrow> rp_AuthClient p = Some c))
       \<and> ((Expiry env facade = None \<or> (\<exists>expiry. Expiry env facade = Some expiry \<and> now > expiry)) \<longrightarrow>
            (r, w') =
              (fst (wrapResult (botIdentityFromToken env cfg None w2)
                      ''renewing identity using Register without existing auth client''),
               emit (EvClientClose c) (snd (botIdentityFromToken env cfg None w2)))
            \<and> (\<forall>p. EvRegister p \<in> set (newEvents w w') \<longrightarrow> rp_AuthClient p = None))"
proof -
  have ev: "\<forall>p. EvRegister p \<in> set (newEvents w (emit (EvClientClose c)
               (snd (botIdentityFromToken env cfg a w2)))) \<longrightarrow> rp_AuthClient p = a" for a
  proof -
    have "adds (joinEvent (\<lambda>p. rp_AuthClient p = a)) w2 (snd (botIdentityFromToken env cfg a w2))"
      by (rule botIdentityFromToken_AuthClient) (rule surjective_pairing)
    then obtain evs where
      t: "trace (snd (botIdentityFromToken env cfg a w2)) = trace w2 @ evs"
      and e: "\<forall>e\<in>set evs. joinEvent (\<lambda>p. rp_AuthClient p = a) e"
      by (auto simp: adds_iff)
    have tw2: "trace w2 = trace w @ [EvBuild facade, EvNow now]"
      by (simp add: w2_def)
    have "newEvents w (emit (EvClientClose c) (snd (botIdentityFromToken env cfg a w2)))
            = EvBuild facade # EvNow now # evs @ [EvClientClose c]"
      by (simp add: newEvents_def t tw2)
    with e show ?thesis by auto
  qed
  have tw: "trace (emit (EvBuild facade) w) = trace w @ [EvBuild facade]"
    by simp
  from nr build run have
    "(r, w') =
       (if (case Expiry env facade of None \<Rightarrow> True | Some expiry \<Rightarrow> now > expiry)
        then (fst (wrapResult (botIdentityFromToken env cfg None w2)
                      ''renewing identity using Register without existing auth client''),
               emit (EvClientClose c) (snd (botIdentityFromToken env cfg None w2)))
        else (fst (wrapResult (botIdentityFromToken env cfg (Some c) w2)
                      ''renewing identity using Register with existing auth client''),
               emit (EvClientClose c) (snd (botIdentityFromToken env cfg (Some c) w2))))"
    unfolding renewIdentity_def Let_def facade_def [symmetric] tw now_def [symmetric]
      w2_def [symmetric]
    by (simp split: if_splits)
  then show ?thesis
    using ev [of None] ev [of "Some c"]
    by (auto split: option.splits if_splits)
qed

text \<open>The clock at the expiry (10), and one past it (11).\<close>

theorem renewIdentity_lightweight_witness:
  "\<not> TLSIdentity_Renewable exampleIdentity
   \<and> Build exampleEnv [] exampleFacade = Inr 1
   \<and> Expiry exampleEnv exampleFacade = Some 10
   \<and> \<not> Now exampleEnv [EvBuild exampleFacade] > 10
   \<and> newEvents emptyWorld (snd (renewIdentity exampleEnv exampleConfig exampleIdentity emptyWorld)) =
       [EvBuild exampleFacade, EvNow 10, EvToken, EvNow 10,
        EvRegister ((exampleRegisterParams exampleConfig (Some 1))
                      \<lparr>rp_Env0AudienceTag := ''something''\<rparr>),
        EvClientClose 1]
   \<and> rp_AuthClient ((exampleRegisterParams exampleConfig (Some 1))
                      \<lparr>rp_Env0AudienceTag := ''something''\<rparr>) = Some 1
   \<and> Now lateEnv [EvBuild exampleFacade] > 10
   \<and> newEvents emptyWorld (snd (renewIdentity lateEnv exampleConfig exampleIdentity emptyWorld)) =
       [EvBuild exampleFacade, EvNow 11, EvToken, EvNow 11,
        EvRegister ((exampleRegisterParams exampleConfig None)
                      \<lparr>rp_Expires := 71, rp_Env0AudienceTag := ''something''\<rparr>),
        EvClientClose 1]
   \<and> rp_AuthClient ((exampleRegisterParams exampleConfig None)
                      \<lparr>rp_Expires := 71, rp_Env0AudienceTag := ''something''\<rparr>) = None"
proof -
  let ?p1 = "(exampleRegisterParams exampleConfig (Some 1))\<lparr>rp_Env0AudienceTag := ''something''\<rparr>"
  let ?p2 = "(exampleRegisterParams exampleConfig None)
                      \<lparr>rp_Expires := 71, rp_Env0AudienceTag := ''something''\<rparr>"
  let ?r1 = "renewIdentity exampleEnv exampleConfig exampleIdentity emptyWorld"
  let ?r2 = "renewIdentity lateEnv exampleConfig exampleIdentity emptyWorld"
  have fac: "NewFacade (FIPS exampleConfig) (Insecure (Connection exampleConfig)) exampleIdentity
      = exampleFacade"
    by (simp add: scenario_defs example_defs)
  have nr: "\<not> TLSIdentity_Renewable exampleIdentity"
    by (simp add: example_defs)
  have b1: "Build exampleEnv (trace emptyWorld)
      (NewFacade (FIPS exampleConfig) (Insecure (Connection exampleConfig)) exampleIdentity) = Inr 1"
    and b2: "Build lateEnv (trace emptyWorld)
      (NewFacade (FIPS exampleConfig) (Insecure (Connection exampleConfig)) exampleIdentity) = Inr 1"
    by (simp_all add: scenario_defs example_defs)
  have e1: "Expiry exampleEnv exampleFacade = Some 10" and e2: "Expiry lateEnv exampleFacade = Some 10"
    by (simp_all add: scenario_defs example_defs NewFacade_def)
  have n1: "Now exampleEnv [EvBuild exampleFacade] = 10" and n2: "Now lateEnv [EvBuild exampleFacade] = 11"
    by (simp_all add: scenario_defs example_defs)
  have ev1: "newEvents emptyWorld (snd ?r1) =
       [EvBuild exampleFacade, EvNow 10, EvToken, EvNow 10, EvRegister ?p1, EvClientClose 1]"
    by (simp add: renewIdentity_def wrapResult_def newEvents_def run_defs NewFacade_def
          exampleRegisterParams_def scenario_defs example_defs)
  have ev2: "newEvents emptyWorld (snd ?r2) =
       [EvBuild exampleFacade, EvNow 11, EvToken, EvNow 11, EvRegister ?p2, EvClientClose 1]"
    by (simp add: renewIdentity_def wrapResult_def newEvents_def run_defs NewFacade_def
          exampleRegisterParams_def scenario_defs example_defs)
  have t: "trace emptyWorld = []" by (simp add: emptyWorld_def)
  from renewIdentity_lightweight [OF nr b1, of "fst ?r1" "snd ?r1"] e1 n1 ev1
  have "rp_AuthClient ?p1 = Some 1"
    by (simp add: fac t)
  moreover from renewIdentity_lightweight [OF nr b2, of "fst ?r2" "snd ?r2"] e2 n2 ev2
  have "rp_AuthClient ?p2 = None"
    by (simp add: fac t)
  ultimately show ?thesis
    using nr b1 e1 n1 n2 ev1 ev2 by (simp add: fac t)
qed

subsection \<open>A changed onboarding token\<close>

text \<open>
  C2. Let the store hold an identity and the configured token be readable. The stored
  identity is dropped (\<open>loadIdentityFromStore\<close> returns none) exactly when its token
  hash and the hash of the configured token are both non-empty and differ; when either is
  empty the comparison is skipped. When it is dropped, \<open>Initialize\<close> joins from
  scratch: it runs \<open>botIdentityFromToken\<close> without auth client, every
  \<open>join.Register\<close> it makes carries no auth client, and it never calls
  \<open>GenerateUserCerts\<close>.
\<close>

theorem Initialize_token_changed:
  fixes env cfg w ident token
  defines "w1 \<equiv> emit EvToken (emit (EvLoadIdentity (Destination cfg)) w)"
  defines "changed \<equiv> TokenHashBytes ident \<noteq> [] \<and> Sum256Hex env token \<noteq> []
                       \<and> TokenHashBytes ident \<noteq> Sum256Hex env token"
  assumes stored: "LoadIdentity env (trace w) (Destination cfg) = Inr ident"
    and has: "HasToken (Onboarding cfg)"
    and readable: "Token env (trace w @ [EvLoadIdentity (Destination cfg)]) = Inr token"
  shows "(hasTokenChanged (TokenHashBytes ident) (Sum256Hex env token) \<longleftrightarrow> changed)
       \<and> (fst (loadIdentityFromStore env cfg (Destination cfg) w) = None \<longleftrightarrow> changed)
       \<and> (changed \<longrightarrow>
            loadIdentityFromStore env cfg (Destination cfg) w = (None, False, w1)
            \<and> Initialize env cfg s w =
                (case botIdentityFromToken env cfg None w1 of
                   (Inl err, w2) \<Rightarrow> (Return (Some (Wrap err ''joining with token'')), s, w2)
                 | (Inr newIdentity, w2) \<Rightarrow> Initialize_publish env cfg newIdentity s w2)
            \<and> (\<forall>p. EvRegister p \<in> set (newEvents w (snd (snd (Initialize env cfg s w))))
                   \<longrightarrow> rp_AuthClient p = None)
            \<and> (\<forall>c q. EvGenerateUserCerts c q
                    \<notin> set (newEvents w (snd (snd (Initialize env cfg s w))))))"
proof -
  let ?Q = "\<lambda>e. isLoadEvent (Destination cfg) e \<or> joinEvent (\<lambda>p. rp_AuthClient p = None) e
                \<or> isPublishEvent e"
  have htc: "hasTokenChanged (TokenHashBytes ident) (Sum256Hex env token) \<longleftrightarrow> changed"
    by (auto simp: hasTokenChanged_def changed_def)
  have load: "loadIdentityFromStore env cfg (Destination cfg) w =
      (if changed then (None, False, w1) else checkValidity env ident w1)"
    using stored has readable
    by (simp add: loadIdentityFromStore_def Let_def htc w1_def)
  have fst_iff: "fst (loadIdentityFromStore env cfg (Destination cfg) w) = None \<longleftrightarrow> changed"
    by (simp add: load checkValidity_eq)
  have rest: "Initialize env cfg s w =
                (case botIdentityFromToken env cfg None w1 of
                   (Inl err, w2) \<Rightarrow> (Return (Some (Wrap err ''joining with token'')), s, w2)
                 | (Inr newIdentity, w2) \<Rightarrow> Initialize_publish env cfg newIdentity s w2)"
      "\<forall>p. EvRegister p \<in> set (newEvents w (snd (snd (Initialize env cfg s w))))
                   \<longrightarrow> rp_AuthClient p = None"
      "\<forall>c q. EvGenerateUserCerts c q
                    \<notin> set (newEvents w (snd (snd (Initialize env cfg s w))))"
    if ch: changed
  proof -
    from ch has show init: "Initialize env cfg s w =
                (case botIdentityFromToken env cfg None w1 of
                   (Inl err, w2) \<Rightarrow> (Return (Some (Wrap err ''joining with token'')), s, w2)
                 | (Inr newIdentity, w2) \<Rightarrow> Initialize_publish env cfg newIdentity s w2)"
      by (simp add: Initialize_def load)
    obtain r2 w2 where join: "botIdentityFromToken env cfg None w1 = (r2, w2)"
      by (cases "botIdentityFromToken env cfg None w1")
    have a1: "adds ?Q w w1"
      by (simp add: w1_def)
    have a2: "adds ?Q w1 w2"
      by (rule adds_mono [OF botIdentityFromToken_AuthClient [OF join]]) simp
    have a3: "adds ?Q w2 (snd (snd (Initialize env cfg s w)))"
    proof (cases r2)
      case (Inl err)
      with init join show ?thesis by simp
    next
      case (Inr new)
      have "adds isPublishEvent w2 (snd (snd (Initialize_publish env cfg new s w2)))"
        using Initialize_publish_adds [of env cfg new s w2
            "fst (Initialize_publish env cfg new s w2)"
            "fst (snd (Initialize_publish env cfg new s w2))"
            "snd (snd (Initialize_publish env cfg new s w2))"]
        by simp
      then have "adds ?Q w2 (snd (snd (Initialize_publish env cfg new s w2)))"
        by (rule adds_mono) simp
      with init join Inr show ?thesis by simp
    qed
    from a1 a2 a3 have all: "adds ?Q w (snd (snd (Initialize env cfg s w)))"
      by (blast intro: adds_trans)
    show "\<forall>p. EvRegister p \<in> set (newEvents w (snd (snd (Initialize env cfg s w))))
                   \<longrightarrow> rp_AuthClient p = None"
      using adds_newEvents [OF all] by fastforce
    show "\<forall>c q. EvGenerateUserCerts c q
                    \<notin> set (newEvents w (snd (snd (Initialize env cfg s w))))"
      using adds_newEvents [OF all] by fastforce
  qed
  have l2: "loadIdentityFromStore env cfg (Destination cfg) w = (None, False, w1)" if changed
    using that by (simp add: load)
  from htc fst_iff l2 rest show ?thesis
    by blast
qed

lemmas init_defs =
  Initialize_def Initialize_publish_def unblockWaiters_def ensureInitialized_def
  makeChan_def closeChan_def loadIdentityFromStore_def checkValidity_eq hasTokenChanged_def
  NewFacade_def NewService_def

lemma trace_emptyWorld: "trace emptyWorld = []"
  by (simp add: emptyWorld_def)

text \<open>The stored identity was obtained with \<open>tok-A\<close>, the configuration holds \<open>tok-B\<close>.\<close>

theorem Initialize_token_changed_witness:
  "LoadIdentity rotatedEnv (trace emptyWorld) (Destination exampleConfig) = Inr exampleIdentity
   \<and> HasToken (Onboarding exampleConfig)
   \<and> Token rotatedEnv (trace emptyWorld @ [EvLoadIdentity (Destination exampleConfig)]) = Inr ''tok-B''
   \<and> TokenHashBytes exampleIdentity \<noteq> [] \<and> Sum256Hex rotatedEnv ''tok-B'' \<noteq> []
   \<and> TokenHashBytes exampleIdentity \<noteq> Sum256Hex rotatedEnv ''tok-B''
   \<and> loadIdentityFromStore rotatedEnv exampleConfig (Destination exampleConfig) emptyWorld =
       (None, False, \<lparr>trace = [EvLoadIdentity ''dest'', EvToken], chans = []\<rparr>)
   \<and> fst (Initialize rotatedEnv exampleConfig NewService emptyWorld) = Return None
   \<and> map_option Facade_Get
        (sv_facade (fst (snd (Initialize rotatedEnv exampleConfig NewService emptyWorld)))) =
       Some rejoinedIdentity
   \<and> EvRegister ((exampleRegisterParams exampleConfig None)
                    \<lparr>rp_Token := ''tok-B'', rp_Env0AudienceTag := ''something''\<rparr>)
       \<in> set (newEvents emptyWorld
                (snd (snd (Initialize rotatedEnv exampleConfig NewService emptyWorld))))
   \<and> rp_AuthClient ((exampleRegisterParams exampleConfig None)
                    \<lparr>rp_Token := ''tok-B'', rp_Env0AudienceTag := ''something''\<rparr>) = None"
proof -
  have stored: "LoadIdentity rotatedEnv (trace emptyWorld) (Destination exampleConfig) =
      Inr exampleIdentity"
    and has: "HasToken (Onboarding exampleConfig)"
    and readable: "Token rotatedEnv (trace emptyWorld @ [EvLoadIdentity (Destination exampleConfig)])
      = Inr ''tok-B''"
    by (simp_all add: rotatedEnv_def example_defs)
  have changed: "TokenHashBytes exampleIdentity \<noteq> [] \<and> Sum256Hex rotatedEnv ''tok-B'' \<noteq> []
      \<and> TokenHashBytes exampleIdentity \<noteq> Sum256Hex rotatedEnv ''tok-B''"
    by (simp add: rotatedEnv_def example_defs)
  have run: "Initialize rotatedEnv exampleConfig NewService emptyWorld =
      (Return None,
       \<lparr>sv_client = Some 1, sv_facade = Some (NewFacade False False rejoinedIdentity),
        sv_initialized = Some 0, sv_initializedOnce = True\<rparr>,
       \<lparr>trace = [EvLoadIdentity ''dest'', EvToken, EvToken, EvNow 10,
                 EvRegister ((exampleRegisterParams exampleConfig None)
                    \<lparr>rp_Token := ''tok-B'', rp_Env0AudienceTag := ''something''\<rparr>),
                 EvSaveIdentity rejoinedIdentity ''dest'' None,
                 EvBuild (NewFacade False False rejoinedIdentity),
                 EvFacadeSet rejoinedIdentity, EvMakeChan 0, EvCloseChan 0, EvReport Healthy],
        chans = [True]\<rparr>)"
    by (simp add: init_defs run_defs Let_def exampleRegisterParams_def rejoinedIdentity_def
          joinedIdentity_def rotatedEnv_def example_defs)
  from Initialize_token_changed [OF stored has readable, of NewService] changed
  have l0: "loadIdentityFromStore rotatedEnv exampleConfig (Destination exampleConfig) emptyWorld =
       (None, False, emit EvToken (emit (EvLoadIdentity (Destination exampleConfig)) emptyWorld))"
    and all: "\<forall>p. EvRegister p
         \<in> set (newEvents emptyWorld
                  (snd (snd (Initialize rotatedEnv exampleConfig NewService emptyWorld))))
        \<longrightarrow> rp_AuthClient p = None"
    by blast+
  have w1: "emit EvToken (emit (EvLoadIdentity (Destination exampleConfig)) emptyWorld) =
      \<lparr>trace = [EvLoadIdentity ''dest'', EvToken], chans = []\<rparr>"
    by (simp add: emit_def example_defs)
  have r1: "fst (Initialize rotatedEnv exampleConfig NewService emptyWorld) = Return None"
    and r2: "map_option Facade_Get
        (sv_facade (fst (snd (Initialize rotatedEnv exampleConfig NewService emptyWorld)))) =
       Some rejoinedIdentity"
    and r3: "EvRegister ((exampleRegisterParams exampleConfig None)
                    \<lparr>rp_Token := ''tok-B'', rp_Env0AudienceTag := ''something''\<rparr>)
       \<in> set (newEvents emptyWorld
                (snd (snd (Initialize rotatedEnv exampleConfig NewService emptyWorld))))"
    using trace_emptyWorld
    by (simp_all add: run newEvents_def Facade_Get_def NewFacade_def)
  from all r3 have r4: "rp_AuthClient ((exampleRegisterParams exampleConfig None)
                    \<lparr>rp_Token := ''tok-B'', rp_Env0AudienceTag := ''something''\<rparr>) = None"
    by blast
  from stored has readable changed l0 [unfolded w1] r1 r2 r3 r4 show ?thesis
    by blast
qed

subsection \<open>A new key at every renewal\<close>

lemma botIdentityFromAuth_Inr:
  assumes "botIdentityFromAuth env (Some ident) (Some c) ttl w = (Inr new, w')"
  obtains key pem sshk tls cs where
    "GenerateKey env (trace w) (GetCurrentSuiteFromAuthPreference c) HostIdentity = Inr key"
    "MarshalPrivateKey env key = Inr pem"
    "NewPublicKey env key = Inr sshk"
    "MarshalPublicKey env key = Inr tls"
    "GenerateUserCerts env
       (trace w @ [EvGenerateKey (GetCurrentSuiteFromAuthPreference c) HostIdentity,
                   EvNow (Now env (trace w @ [EvGenerateKey (GetCurrentSuiteFromAuthPreference c) HostIdentity]))])
       c \<lparr>uc_SSHPublicKey = MarshalAuthorizedKey env sshk, uc_TLSPublicKey = tls,
          uc_Username = X509Cert_Subject_CommonName ident,
          uc_Expires = Now env (trace w @ [EvGenerateKey (GetCurrentSuiteFromAuthPreference c) HostIdentity]) + ttl\<rparr>
       = Inr cs"
    "ReadIdentityFromStore env
       \<lparr>lp_PrivateKeyBytes = pem, lp_PublicKeyBytes = MarshalAuthorizedKey env sshk,
        lp_TokenHashBytes = TokenHashBytes ident\<rparr> cs = Inr new"
    "trace w' = trace w @ [EvGenerateKey (GetCurrentSuiteFromAuthPreference c) HostIdentity,
        EvNow (Now env (trace w @ [EvGenerateKey (GetCurrentSuiteFromAuthPreference c) HostIdentity])),
        EvGenerateUserCerts c
          \<lparr>uc_SSHPublicKey = MarshalAuthorizedKey env sshk, uc_TLSPublicKey = tls,
           uc_Username = X509Cert_Subject_CommonName ident,
           uc_Expires = Now env (trace w @ [EvGenerateKey (GetCurrentSuiteFromAuthPreference c) HostIdentity]) + ttl\<rparr>]"
  using assms
  by (auto simp: botIdentityFromAuth_def Let_def split: sum.splits)

lemma ReadIdentityFromStore_fields:
  assumes "ReadIdentityFromStore env params cs = Inr new"
  shows "PrivateKeyBytes new = lp_PrivateKeyBytes params"
    and "TokenHashBytes new = lp_TokenHashBytes params"
    and "PublicKeyBytes new = lp_PublicKeyBytes params"
  using assms by (auto simp: ReadIdentityFromStore_def split: sum.splits)

lemma botIdentityFromAuth_reads:
  assumes "X509Cert_Subject_CommonName i = X509Cert_Subject_CommonName j"
    and "TokenHashBytes i = TokenHashBytes j"
  shows "botIdentityFromAuth env (Some i) c ttl w = botIdentityFromAuth env (Some j) c ttl w"
  using assms
  by (simp add: botIdentityFromAuth_def Let_def split: option.splits sum.splits)

text \<open>
  What \<open>botIdentityFromAuth\<close> does when it succeeds: it first generates a key with the
  suite the auth server currently prefers; the private key of the new identity is that
  key, marshalled; the private key of the old identity is not read; the token hash is
  carried over; and with a key generator that never returns the key material of an
  earlier call, a later successful call yields another private key.
\<close>

lemma botIdentityFromAuth_new_key:
  assumes run: "botIdentityFromAuth env (Some ident) (Some c) ttl w = (Inr new, w')"
  shows "(\<exists>key. GenerateKey env (trace w) (GetCurrentSuiteFromAuthPreference c) HostIdentity = Inr key
              \<and> MarshalPrivateKey env key = Inr (PrivateKeyBytes new))
       \<and> (\<exists>evs. newEvents w w' = EvGenerateKey (GetCurrentSuiteFromAuthPreference c) HostIdentity # evs)
       \<and> TokenHashBytes new = TokenHashBytes ident
       \<and> (\<forall>k. botIdentityFromAuth env (Some (ident\<lparr>PrivateKeyBytes := k\<rparr>)) (Some c) ttl w
                = (Inr new, w'))
       \<and> ((\<forall>h evs s p s' p' k k' b.
               evs \<noteq> [] \<and> GenerateKey env h s p = Inr k \<and> GenerateKey env (h @ evs) s' p' = Inr k'
               \<and> MarshalPrivateKey env k = Inr b \<longrightarrow> MarshalPrivateKey env k' \<noteq> Inr b)
           \<longrightarrow> (\<forall>c2 ttl2 w2 new2 w2'.
                  (\<exists>evs. trace w2 = trace w' @ evs)
                  \<and> botIdentityFromAuth env (Some new) (Some c2) ttl2 w2 = (Inr new2, w2')
                  \<longrightarrow> PrivateKeyBytes new2 \<noteq> PrivateKeyBytes new))"
proof -
  from run obtain key pem sshk tls cs where
    gen: "GenerateKey env (trace w) (GetCurrentSuiteFromAuthPreference c) HostIdentity = Inr key"
    and pem: "MarshalPrivateKey env key = Inr pem"
    and rd: "ReadIdentityFromStore env
       \<lparr>lp_PrivateKeyBytes = pem, lp_PublicKeyBytes = MarshalAuthorizedKey env sshk,
        lp_TokenHashBytes = TokenHashBytes ident\<rparr> cs = Inr new"
    and tr: "\<exists>evs. trace w' = trace w @ EvGenerateKey (GetCurrentSuiteFromAuthPreference c) HostIdentity # evs"
    by (rule botIdentityFromAuth_Inr) blast
  from rd have pk: "PrivateKeyBytes new = pem" and th: "TokenHashBytes new = TokenHashBytes ident"
    by (simp_all add: ReadIdentityFromStore_fields)
  have key: "\<exists>key. GenerateKey env (trace w) (GetCurrentSuiteFromAuthPreference c) HostIdentity = Inr key
              \<and> MarshalPrivateKey env key = Inr (PrivateKeyBytes new)"
    using gen pem pk by blast
  have evs: "\<exists>evs. newEvents w w' = EvGenerateKey (GetCurrentSuiteFromAuthPreference c) HostIdentity # evs"
    using tr by (auto simp: newEvents_def)
  have indep: "botIdentityFromAuth env (Some (ident\<lparr>PrivateKeyBytes := k\<rparr>)) (Some c) ttl w
                = (Inr new, w')" for k
    using run botIdentityFromAuth_reads [of "ident\<lparr>PrivateKeyBytes := k\<rparr>" ident env "Some c" ttl w]
    by simp
  have succ: "PrivateKeyBytes new2 \<noteq> PrivateKeyBytes new"
    if fresh: "\<forall>h evs s p s' p' k k' b.
               evs \<noteq> [] \<and> GenerateKey env h s p = Inr k \<and> GenerateKey env (h @ evs) s' p' = Inr k'
               \<and> MarshalPrivateKey env k = Inr b \<longrightarrow> MarshalPrivateKey env k' \<noteq> Inr b"
      and later: "\<exists>evs. trace w2 = trace w' @ evs"
      and run2: "botIdentityFromAuth env (Some new) (Some c2) ttl2 w2 = (Inr new2, w2')"
    for c2 ttl2 w2 new2 w2'
  proof -
    from run2 obtain key2 pem2 sshk2 cs2 where
      gen2: "GenerateKey env (trace w2) (GetCurrentSuiteFromAuthPreference c2) HostIdentity = Inr key2"
      and pem2: "MarshalPrivateKey env key2 = Inr pem2"
      and rd2: "ReadIdentityFromStore env
         \<lparr>lp_PrivateKeyBytes = pem2, lp_PublicKeyBytes = MarshalAuthorizedKey env sshk2,
          lp_TokenHashBytes = TokenHashBytes new\<rparr> cs2 = Inr new2"
      by (rule botIdentityFromAuth_Inr) blast
    from rd2 have pk2: "PrivateKeyBytes new2 = pem2"
      by (simp add: ReadIdentityFromStore_fields)
    from tr later obtain evs where ext: "trace w2 = trace w @ evs" and ne: "evs \<noteq> []"
      by auto
    from fresh ne gen gen2 [unfolded ext] pem have "MarshalPrivateKey env key2 \<noteq> Inr pem"
      by blast
    with pem2 pk pk2 show ?thesis by auto
  qed
  from key evs th indep succ show ?thesis
    by blast
qed

lemma exampleEnv_fresh_keys:
  "\<forall>h evs s p s' p' k k' b.
     evs \<noteq> [] \<and> GenerateKey exampleEnv h s p = Inr k
     \<and> GenerateKey exampleEnv (h @ evs) s' p' = Inr k'
     \<and> MarshalPrivateKey exampleEnv k = Inr b \<longrightarrow> MarshalPrivateKey exampleEnv k' \<noteq> Inr b"
proof (intro allI impI)
  fix h evs :: "event list" and s p s' p' k k' b
  assume a: "evs \<noteq> [] \<and> GenerateKey exampleEnv h s p = Inr k
     \<and> GenerateKey exampleEnv (h @ evs) s' p' = Inr k'
     \<and> MarshalPrivateKey exampleEnv k = Inr b"
  then have "k = length h" "k' = length h + length evs" "b = replicate k (CHR ''k'')" "evs \<noteq> []"
    by (auto simp: exampleEnv_def)
  then have "length (replicate k' (CHR ''k'')) \<noteq> length b"
    by simp
  then have "replicate k' (CHR ''k'') \<noteq> b" by blast
  then show "MarshalPrivateKey exampleEnv k' \<noteq> Inr b"
    by (simp add: exampleEnv_def)
qed

text \<open>
  \<open>renewIdentity\<close> sends every renewable identity through \<open>botIdentityFromAuth\<close>, with
  the client built around the old identity, and closes that client afterwards.
\<close>

lemma renewIdentity_renewable:
  assumes "TLSIdentity_Renewable old"
    and "Build env (trace w) (NewFacade (FIPS cfg) (Insecure (Connection cfg)) old) = Inr c"
  shows "renewIdentity env cfg old w =
           (fst (wrapResult
                   (botIdentityFromAuth env (Some old) (Some c) (TTL cfg)
                      (emit (EvBuild (NewFacade (FIPS cfg) (Insecure (Connection cfg)) old)) w))
                   ''renewing identity using GenerateUserCert''),
            emit (EvClientClose c)
              (snd (botIdentityFromAuth env (Some old) (Some c) (TTL cfg)
                      (emit (EvBuild (NewFacade (FIPS cfg) (Insecure (Connection cfg)) old)) w))))"
  using assms by (simp add: renewIdentity_def Let_def)

lemma renewIdentity_Inr_Build:
  assumes "renewIdentity env cfg old w = (Inr new, w')"
  shows "\<exists>c. Build env (trace w) (NewFacade (FIPS cfg) (Insecure (Connection cfg)) old) = Inr c"
  using assms by (cases "Build env (trace w) (NewFacade (FIPS cfg) (Insecure (Connection cfg)) old)")
    (auto simp: renewIdentity_def Let_def)

lemma renewIdentity_renewable_Inr:
  assumes ren: "TLSIdentity_Renewable old"
    and run: "renewIdentity env cfg old w = (Inr new, w')"
  obtains c w'' where
    "Build env (trace w) (NewFacade (FIPS cfg) (Insecure (Connection cfg)) old) = Inr c"
    "botIdentityFromAuth env (Some old) (Some c) (TTL cfg)
       (emit (EvBuild (NewFacade (FIPS cfg) (Insecure (Connection cfg)) old)) w) = (Inr new, w'')"
    "w' = emit (EvClientClose c) w''"
proof -
  from renewIdentity_Inr_Build [OF run] obtain c where
    b: "Build env (trace w) (NewFacade (FIPS cfg) (Insecure (Connection cfg)) old) = Inr c" ..
  let ?X = "botIdentityFromAuth env (Some old) (Some c) (TTL cfg)
       (emit (EvBuild (NewFacade (FIPS cfg) (Insecure (Connection cfg)) old)) w)"
  have "(fst (wrapResult ?X ''renewing identity using GenerateUserCert''),
         emit (EvClientClose c) (snd ?X)) = (Inr new, w')"
    using renewIdentity_renewable [OF ren b] run by simp
  then have "fst (wrapResult ?X ''renewing identity using GenerateUserCert'') = Inr new"
    and "w' = emit (EvClientClose c) (snd ?X)"
    by blast+
  then have "fst ?X = Inr new" and "w' = emit (EvClientClose c) (snd ?X)"
    by simp_all
  then have "?X = (Inr new, snd ?X)" "w' = emit (EvClientClose c) (snd ?X)"
    by (simp_all add: prod_eq_iff)
  with b that show thesis by blast
qed

text \<open>
  C6. Every successful renewal of a renewable identity (\<open>renewIdentity\<close> with
  \<open>TLSIdentity.Renewable\<close> set) goes through \<open>GenerateUserCerts\<close>: it builds the
  client, generates a key with the suite the auth server currently prefers, reads the
  clock, calls \<open>GenerateUserCerts\<close> and closes the client, and does nothing else. The
  private key of the new identity is the generated key, marshalled. The private key of
  the old identity is not read by the renewal behind the client: that renewal yields the
  same identity whatever the old private key is. The token hash is carried over. Hence,
  with a key generator that never returns the key material of an earlier call, the next
  successful renewal of the new identity yields another private key.
\<close>

theorem renewIdentity_renewable_new_key:
  fixes env cfg old w
  defines "facade \<equiv> NewFacade (FIPS cfg) (Insecure (Connection cfg)) old"
  assumes ren: "TLSIdentity_Renewable old"
    and run: "renewIdentity env cfg old w = (Inr new, w')"
  shows "(\<exists>c key now req.
            Build env (trace w) facade = Inr c
            \<and> GenerateKey env (trace w @ [EvBuild facade])
                 (GetCurrentSuiteFromAuthPreference c) HostIdentity = Inr key
            \<and> MarshalPrivateKey env key = Inr (PrivateKeyBytes new)
            \<and> newEvents w w' =
                 [EvBuild facade, EvGenerateKey (GetCurrentSuiteFromAuthPreference c) HostIdentity,
                  EvNow now, EvGenerateUserCerts c req, EvClientClose c]
            \<and> (\<forall>k. fst (botIdentityFromAuth env (Some (old\<lparr>PrivateKeyBytes := k\<rparr>)) (Some c)
                          (TTL cfg) (emit (EvBuild facade) w)) = Inr new))
       \<and> TokenHashBytes new = TokenHashBytes old
       \<and> ((\<forall>h evs s p s' p' k k' b.
               evs \<noteq> [] \<and> GenerateKey env h s p = Inr k \<and> GenerateKey env (h @ evs) s' p' = Inr k'
               \<and> MarshalPrivateKey env k = Inr b \<longrightarrow> MarshalPrivateKey env k' \<noteq> Inr b)
           \<longrightarrow> (\<forall>cfg2 w2 new2 w2'.
                  TLSIdentity_Renewable new \<and> (\<exists>evs. trace w2 = trace w' @ evs)
                  \<and> renewIdentity env cfg2 new w2 = (Inr new2, w2')
                  \<longrightarrow> PrivateKeyBytes new2 \<noteq> PrivateKeyBytes new))"
proof -
  from ren run obtain c w'' where
    b: "Build env (trace w) facade = Inr c"
    and auth: "botIdentityFromAuth env (Some old) (Some c) (TTL cfg) (emit (EvBuild facade) w)
                 = (Inr new, w'')"
    and w': "w' = emit (EvClientClose c) w''"
    unfolding facade_def by (rule renewIdentity_renewable_Inr)
  note helper = botIdentityFromAuth_new_key [OF auth]
  from auth obtain sshk tls where
    tr: "trace w'' = trace (emit (EvBuild facade) w) @
        [EvGenerateKey (GetCurrentSuiteFromAuthPreference c) HostIdentity,
         EvNow (Now env (trace (emit (EvBuild facade) w)
                  @ [EvGenerateKey (GetCurrentSuiteFromAuthPreference c) HostIdentity])),
         EvGenerateUserCerts c
           \<lparr>uc_SSHPublicKey = MarshalAuthorizedKey env sshk, uc_TLSPublicKey = tls,
            uc_Username = X509Cert_Subject_CommonName old,
            uc_Expires = Now env (trace (emit (EvBuild facade) w)
                  @ [EvGenerateKey (GetCurrentSuiteFromAuthPreference c) HostIdentity]) + TTL cfg\<rparr>]"
    by (rule botIdentityFromAuth_Inr) blast
  from helper obtain key where
    gen: "GenerateKey env (trace w @ [EvBuild facade])
            (GetCurrentSuiteFromAuthPreference c) HostIdentity = Inr key"
    and pem: "MarshalPrivateKey env key = Inr (PrivateKeyBytes new)"
    by auto
  have evs: "\<exists>now req. newEvents w w' =
                 [EvBuild facade, EvGenerateKey (GetCurrentSuiteFromAuthPreference c) HostIdentity,
                  EvNow now, EvGenerateUserCerts c req, EvClientClose c]"
    using tr w' by (simp add: newEvents_def)
  from helper have indep: "\<forall>k. fst (botIdentityFromAuth env (Some (old\<lparr>PrivateKeyBytes := k\<rparr>))
                          (Some c) (TTL cfg) (emit (EvBuild facade) w)) = Inr new"
    by simp
  from helper have th: "TokenHashBytes new = TokenHashBytes old"
    by blast
  have succ: "PrivateKeyBytes new2 \<noteq> PrivateKeyBytes new"
    if fresh: "\<forall>h evs s p s' p' k k' b.
               evs \<noteq> [] \<and> GenerateKey env h s p = Inr k \<and> GenerateKey env (h @ evs) s' p' = Inr k'
               \<and> MarshalPrivateKey env k = Inr b \<longrightarrow> MarshalPrivateKey env k' \<noteq> Inr b"
      and ren2: "TLSIdentity_Renewable new"
      and later: "\<exists>evs. trace w2 = trace w' @ evs"
      and run2: "renewIdentity env cfg2 new w2 = (Inr new2, w2')"
    for cfg2 w2 new2 w2'
  proof -
    from ren2 run2 obtain c2 w2'' where
      auth2: "botIdentityFromAuth env (Some new) (Some c2) (TTL cfg2)
                (emit (EvBuild (NewFacade (FIPS cfg2) (Insecure (Connection cfg2)) new)) w2)
                 = (Inr new2, w2'')"
      by (rule renewIdentity_renewable_Inr)
    from later w' have "\<exists>evs. trace (emit (EvBuild (NewFacade (FIPS cfg2)
                             (Insecure (Connection cfg2)) new)) w2) = trace w'' @ evs"
      by auto
    with helper fresh auth2 show ?thesis
      by blast
  qed
  from b gen pem evs indep th succ show ?thesis
    by blast
qed

text \<open>
  Two renewals in a row of the renewable identity of the store: the keys are
  \<open>kkkk\<close> and \<open>kkkkkkkkk\<close>.
\<close>

theorem renewIdentity_renewable_new_key_witness:
  "TLSIdentity_Renewable renewableIdentity
   \<and> renewIdentity exampleEnv exampleConfig renewableIdentity (loadedWorld 10) =
       (Inr (renewedIdentity 4),
        \<lparr>trace = trace (loadedWorld 10) @ renewalRun renewableIdentity, chans = []\<rparr>)
   \<and> TLSIdentity_Renewable (renewedIdentity 4)
   \<and> renewIdentity exampleEnv exampleConfig (renewedIdentity 4)
        \<lparr>trace = trace (loadedWorld 10) @ renewalRun renewableIdentity, chans = []\<rparr> =
       (Inr (renewedIdentity 9),
        \<lparr>trace = (trace (loadedWorld 10) @ renewalRun renewableIdentity)
                  @ renewalRun (renewedIdentity 4), chans = []\<rparr>)
   \<and> TokenHashBytes (renewedIdentity 4) = TokenHashBytes renewableIdentity
   \<and> PrivateKeyBytes (renewedIdentity 4) = replicate 4 (CHR ''k'')
   \<and> PrivateKeyBytes (renewedIdentity 9) \<noteq> PrivateKeyBytes (renewedIdentity 4)"
proof -
  let ?w1 = "\<lparr>trace = trace (loadedWorld 10) @ renewalRun renewableIdentity, chans = []\<rparr>"
  let ?w2 = "\<lparr>trace = (trace (loadedWorld 10) @ renewalRun renewableIdentity)
                  @ renewalRun (renewedIdentity 4), chans = []\<rparr>"
  have ren1: "TLSIdentity_Renewable renewableIdentity"
    and ren2: "TLSIdentity_Renewable (renewedIdentity 4)"
    by (simp_all add: renewableIdentity_def renewedIdentity_def)
  have run1: "renewIdentity exampleEnv exampleConfig renewableIdentity (loadedWorld 10) =
     (Inr (renewedIdentity 4), ?w1)"
    by (simp add: renewIdentity_def wrapResult_def botIdentityFromAuth_def
          ReadIdentityFromStore_def NewFacade_def emit_def Let_def eval_nat_numeral
          renewableIdentity_def renewedIdentity_def renewalRun_def renewalEvents_def
          userCertsRequest_def loadedWorld_def example_defs)
  have run2: "renewIdentity exampleEnv exampleConfig (renewedIdentity 4) ?w1 =
     (Inr (renewedIdentity 9), ?w2)"
    by (simp add: renewIdentity_def wrapResult_def botIdentityFromAuth_def
          ReadIdentityFromStore_def NewFacade_def emit_def Let_def eval_nat_numeral
          renewableIdentity_def renewedIdentity_def renewalRun_def renewalEvents_def
          userCertsRequest_def loadedWorld_def example_defs)
  have later: "\<exists>evs. trace ?w1 = trace ?w1 @ evs" by simp
  have pk: "PrivateKeyBytes (renewedIdentity 4) = replicate 4 (CHR ''k'')"
    by (simp add: renewedIdentity_def)
  note main = renewIdentity_renewable_new_key [OF ren1 run1]
  from main have th: "TokenHashBytes (renewedIdentity 4) = TokenHashBytes renewableIdentity"
    by blast
  from main exampleEnv_fresh_keys ren2 later run2
  have ne: "PrivateKeyBytes (renewedIdentity 9) \<noteq> PrivateKeyBytes (renewedIdentity 4)"
    by blast
  from ren1 run1 ren2 run2 th pk ne show ?thesis by blast
qed

subsection \<open>The readiness gate\<close>

lemma gateInv_NewService: "gateInv False (length (chans w)) NewService w"
  by (simp add: gateInv_def NewService_def)

lemma callGate_step:
  assumes inv: "gateInv u c0 s w" and call: "callGate c s w = (r, s1, w1)"
  shows "gateInv (u \<or> c = CallUnblockWaiters) c0 s1 w1"
    and "r \<noteq> Panicked"
    and "\<forall>c'. r = GotChan c' \<longrightarrow> c' = c0"
    and "c = CallIsReady \<longrightarrow> r = GotBool u"
    and "\<exists>evs. trace w1 = trace w @ evs
           \<and> filter isCloseEvent evs = (if \<not> u \<and> c = CallUnblockWaiters then [EvCloseChan c0] else [])"
  using assms
  by (cases c;
      auto simp: gateInv_def Ready_def IsReady_def unblockWaiters_def ensureInitialized_def
                 makeChan_def closeChan_def isClosed_def Let_def emit_def nth_append
           split: option.splits if_splits prod.splits outcome.splits)+


lemma callGates_inv:
  assumes "gateInv u c0 s w" and "callGates calls s w = (rs, s', w')"
  shows "Panicked \<notin> set rs \<and> length rs = length calls
       \<and> (\<forall>c. GotChan c \<in> set rs \<longrightarrow> c = c0)
       \<and> (\<forall>i<length calls. calls ! i = CallIsReady \<longrightarrow>
              rs ! i = GotBool (u \<or> CallUnblockWaiters \<in> set (take i calls)))
       \<and> (\<exists>evs. trace w' = trace w @ evs
              \<and> filter isCloseEvent evs =
                  (if \<not> u \<and> CallUnblockWaiters \<in> set calls then [EvCloseChan c0] else []))"
  using assms
proof (induction calls arbitrary: u s w rs s' w')
  case Nil
  then show ?case by simp
next
  case (Cons c cs)
  obtain r s1 w1 where call: "callGate c s w = (r, s1, w1)"
    by (cases "callGate c s w")
  obtain rs1 s2 w2 where rest: "callGates cs s1 w1 = (rs1, s2, w2)"
    by (cases "callGates cs s1 w1")
  note step = callGate_step [OF Cons.prems(1) call]
  from step(2) call rest Cons.prems(2) have rs: "rs = r # rs1" and w': "w' = w2"
    by (auto split: gate_result.splits)
  note ih = Cons.IH [OF step(1) rest]
  from ih have np: "Panicked \<notin> set rs1" and len: "length rs1 = length cs"
    and ch: "\<forall>c. GotChan c \<in> set rs1 \<longrightarrow> c = c0"
    and rd: "\<forall>i<length cs. cs ! i = CallIsReady \<longrightarrow>
              rs1 ! i = GotBool ((u \<or> c = CallUnblockWaiters) \<or> CallUnblockWaiters \<in> set (take i cs))"
    by blast+
  from ih obtain evs2 where t2: "trace w2 = trace w1 @ evs2"
    and f2: "filter isCloseEvent evs2 =
       (if \<not> (u \<or> c = CallUnblockWaiters) \<and> CallUnblockWaiters \<in> set cs then [EvCloseChan c0] else [])"
    by blast
  from step(5) obtain evs1 where t1: "trace w1 = trace w @ evs1"
    and f1: "filter isCloseEvent evs1 = (if \<not> u \<and> c = CallUnblockWaiters then [EvCloseChan c0] else [])"
    by blast
  have A: "Panicked \<notin> set rs \<and> length rs = length (c # cs)"
    using rs np len step(2) by auto
  have B: "\<forall>c'. GotChan c' \<in> set rs \<longrightarrow> c' = c0"
    using rs ch step(3) by auto
  have C: "\<forall>i<length (c # cs). (c # cs) ! i = CallIsReady \<longrightarrow>
              rs ! i = GotBool (u \<or> CallUnblockWaiters \<in> set (take i (c # cs)))"
  proof (intro allI impI)
    fix i assume i: "i < length (c # cs)" and isr: "(c # cs) ! i = CallIsReady"
    show "rs ! i = GotBool (u \<or> CallUnblockWaiters \<in> set (take i (c # cs)))"
    proof (cases i)
      case 0
      with isr step(4) rs show ?thesis by simp
    next
      case (Suc j)
      with i isr rd rs show ?thesis by auto
    qed
  qed
  have D: "\<exists>evs. trace w' = trace w @ evs
              \<and> filter isCloseEvent evs =
                  (if \<not> u \<and> CallUnblockWaiters \<in> set (c # cs) then [EvCloseChan c0] else [])"
    using t1 t2 f1 f2 w' by (intro exI [of _ "evs1 @ evs2"]) auto
  from A B C D show ?case by blast
qed

text \<open>
  C8. Whatever sequence of calls of \<open>Ready\<close>, \<open>IsReady\<close> and \<open>unblockWaiters\<close> a
  new service receives: no call panics and each returns; every \<open>Ready\<close> returns the
  same channel; that channel is closed exactly once if \<open>unblockWaiters\<close> is called
  at all (however often) and never otherwise, and no other channel is closed;
  \<open>IsReady\<close> is false before the first \<open>unblockWaiters\<close> and true after it.
\<close>

theorem readiness_gate_idempotent:
  assumes run: "callGates calls NewService w = (rs, s', w')"
  shows "Panicked \<notin> set rs \<and> length rs = length calls
       \<and> (\<forall>c. GotChan c \<in> set rs \<longrightarrow> c = length (chans w))
       \<and> filter isCloseEvent (newEvents w w') =
           (if CallUnblockWaiters \<in> set calls then [EvCloseChan (length (chans w))] else [])
       \<and> (\<forall>i<length calls. calls ! i = CallIsReady \<longrightarrow>
              rs ! i = GotBool (CallUnblockWaiters \<in> set (take i calls)))"
proof -
  note all = callGates_inv [OF gateInv_NewService run]
  from all obtain evs where "trace w' = trace w @ evs"
    and "filter isCloseEvent evs =
           (if CallUnblockWaiters \<in> set calls then [EvCloseChan (length (chans w))] else [])"
    by auto
  then have "filter isCloseEvent (newEvents w w') =
           (if CallUnblockWaiters \<in> set calls then [EvCloseChan (length (chans w))] else [])"
    by (simp add: newEvents_def)
  with all show ?thesis by simp
qed

text \<open>Three calls of \<open>unblockWaiters\<close> among calls of \<open>Ready\<close> and \<open>IsReady\<close>.\<close>

theorem readiness_gate_idempotent_witness:
  "callGates exampleCalls NewService emptyWorld =
     ([GotBool False, GotChan 0, Unblocked, GotBool True, Unblocked, GotChan 0, Unblocked,
       GotBool True],
      \<lparr>sv_client = None, sv_facade = None, sv_initialized = Some 0, sv_initializedOnce = True\<rparr>,
      \<lparr>trace = [EvMakeChan 0, EvCloseChan 0], chans = [True]\<rparr>)
   \<and> filter isCloseEvent
        (newEvents emptyWorld \<lparr>trace = [EvMakeChan 0, EvCloseChan 0], chans = [True]\<rparr>) =
       [EvCloseChan 0]
   \<and> (7 < length exampleCalls \<and> exampleCalls ! 7 = CallIsReady
        \<and> CallUnblockWaiters \<in> set (take 7 exampleCalls))"
proof -
  let ?rs = "[GotBool False, GotChan 0, Unblocked, GotBool True, Unblocked, GotChan 0, Unblocked,
       GotBool True]"
  let ?w = "\<lparr>trace = [EvMakeChan 0, EvCloseChan 0], chans = [True]\<rparr>"
  have run: "callGates exampleCalls NewService emptyWorld =
     (?rs, \<lparr>sv_client = None, sv_facade = None, sv_initialized = Some 0,
            sv_initializedOnce = True\<rparr>, ?w)"
    by (simp add: exampleCalls_def Ready_def IsReady_def unblockWaiters_def
          ensureInitialized_def makeChan_def closeChan_def isClosed_def Let_def emit_def
          NewService_def emptyWorld_def)
  have c: "CallUnblockWaiters \<in> set exampleCalls" "chans emptyWorld = []"
    by (simp_all add: exampleCalls_def emptyWorld_def)
  have i: "7 < length exampleCalls \<and> exampleCalls ! 7 = CallIsReady
        \<and> CallUnblockWaiters \<in> set (take 7 exampleCalls)"
    by (simp add: exampleCalls_def)
  from readiness_gate_idempotent [OF run] c
  have "filter isCloseEvent (newEvents emptyWorld ?w) = [EvCloseChan 0]"
    by simp
  with run i show ?thesis by blast
qed

subsection \<open>Persisting and publishing a new identity\<close>

text \<open>
  \<open>Initialize\<close> publishes a new identity only after \<open>SaveIdentity\<close> has returned
  without error.
\<close>

lemma Initialize_publish_order:
  assumes "Initialize_publish env cfg new s w = (r, s', w')"
    and "EvFacadeSet i \<in> set (newEvents w w')"
  shows "i = new \<and> SaveIdentity env (trace w) new (Destination cfg) = None
         \<and> (\<exists>evs. newEvents w w' = EvSaveIdentity new (Destination cfg) None # evs)"
proof -
  have u: "\<exists>evs. trace w2 = trace w1 @ evs \<and> (\<forall>e\<in>set evs. isPublishEvent e \<and> (\<forall>j. e \<noteq> EvFacadeSet j))"
    if "unblockWaiters s1 w1 = (r1, s2, w2)" for s1 w1 r1 s2 w2
    using that
    by (auto simp: unblockWaiters_def ensureInitialized_def makeChan_def closeChan_def Let_def
                 emit_def
           split: option.splits if_splits prod.splits)
  from assms show ?thesis
    by (auto simp: Initialize_publish_def Let_def newEvents_def
             split: option.splits sum.splits prod.splits outcome.splits dest!: u)
qed

text \<open>
  \<open>renew\<close> sets the facade as soon as \<open>renewIdentity\<close> has succeeded, and saves the
  identity after that, whatever the save returns.
\<close>

lemma renew_sets_before_saving:
  assumes "sv_facade s = Some f"
    and "VerifyWrite env (trace w) d = None"
    and "renewIdentity env cfg (Facade_Get f) (emit (EvVerifyWrite d None) w) = (Inr new, w2)"
  shows "renew env cfg d s w =
           (Return (map_option (\<lambda>err. Wrap err ''saving new identity'')
                      (SaveIdentity env (trace w2 @ [EvFacadeSet new]) new d)),
            s\<lparr>sv_facade := Some (Facade_Set f new)\<rparr>,
            emit (EvSaveIdentity new d (SaveIdentity env (trace w2 @ [EvFacadeSet new]) new d))
              (emit (EvFacadeSet new) w2))"
  using assms
  by (simp add: renew_def Let_def split: option.splits)

text \<open>
  C1. A renewal cycle sets the facade before it saves: here the cluster issues a new
  identity and the save fails; the cycle returns the error of the save, and the facade
  holds the new identity, which the store never received.
\<close>

theorem renew_publishes_before_saving:
  "renew saveFailsEnv exampleConfig ''dest'' runningService runningWorld =
     (Return (Some (Wrap unavailable ''saving new identity'')),
      runningService\<lparr>sv_facade := Some (Facade_Set exampleFacade joinedIdentity)\<rparr>,
      \<lparr>trace = [EvVerifyWrite ''dest'' None, EvBuild exampleFacade, EvNow 10, EvToken, EvNow 10,
                EvRegister ((exampleRegisterParams exampleConfig (Some 1))
                              \<lparr>rp_Env0AudienceTag := ''something''\<rparr>),
                EvClientClose 1, EvFacadeSet joinedIdentity,
                EvSaveIdentity joinedIdentity ''dest'' (Some unavailable)],
       chans = [True]\<rparr>)
   \<and> Facade_Get (Facade_Set exampleFacade joinedIdentity) = joinedIdentity
   \<and> joinedIdentity \<noteq> Facade_Get exampleFacade"
  by (simp add: renew_def renewIdentity_def wrapResult_def run_defs Let_def Facade_Get_def
        Facade_Set_def NewFacade_def exampleRegisterParams_def joinedIdentity_def saveFailsEnv_def
        scenario_defs example_defs)

end
